theory Spec2Isabelle
  imports Main
begin

section \<open>Expression primitives of the property language\<close>

text \<open>
  The properties of \<^verbatim>\<open>ast.py\<close> are written in a small functional language.
  Only the primitives the modelled properties use are given here.  A null node, a null
  entity and a null struct are \<open>None\<close>; \<open>xs.at(i)\<close> is null out of range;
  \<open>x.then(f)\<close> is the default value (\<open>False\<close>, null) when \<open>x\<close> is null;
  calling a property on a null node without the \<open>_.\<close> guard raises a property
  error.
\<close>

type_synonym symbol = string
type_synonym node_id = nat

datatype error = PropertyError

definition at :: "'a list \<Rightarrow> nat \<Rightarrow> 'a option" where
  "at xs i = (if i < length xs then Some (xs ! i) else None)"

section \<open>Entities\<close>

text \<open>
  An entity is a node with the information the lookup attached to it: the metadata
  (\<^verbatim>\<open>Metadata\<close>) and the chain of rebindings, each a pair of a source and a
  target environment.  The classwide type of a type declaration is a synthetic node,
  memoized on the declaration (\<^verbatim>\<open>classwide_type_node\<close>), so it is determined by
  the declaration it belongs to.
\<close>

type_synonym env_id = nat

datatype node_ref = Node node_id | ClasswideTypeOf node_id

record metadata =
  dottable_subp :: bool
  implicit_deref :: bool

record entity_info =
  md :: metadata
  rebindings :: "(env_id \<times> env_id) list"

record entity =
  el :: node_ref
  info :: entity_info

text \<open>The information of an entity that no lookup has marked or rebound.\<close>

definition no_info :: entity_info where
  "no_info = \<lparr>md = \<lparr>dottable_subp = False, implicit_deref = False\<rparr>, rebindings = []\<rparr>"

section \<open>Names\<close>

text \<open>
  The concrete subclasses of \<^verbatim>\<open>Name\<close>.  The subclasses of
  \<^verbatim>\<open>SingleTokNode\<close> carry the symbol of their token (\<^verbatim>\<open>sym\<close>).
\<close>

datatype name =
    CallExpr node_id
  | ExplicitDeref node_id
  | Identifier node_id symbol
  | StringLiteral node_id symbol
  | CharLiteral node_id symbol
  | RealLiteral node_id symbol
  | IntLiteral node_id symbol
  | NullLiteral node_id symbol
  | QualExpr node_id
  | AttributeRef node_id
  | UpdateAttributeRef node_id
  | DottedName node_id

text \<open>\<^verbatim>\<open>n.cast(Identifier)\<close> and \<^verbatim>\<open>n.cast(StringLiteral)\<close>, giving the symbol.\<close>

fun cast_Identifier :: "name option \<Rightarrow> symbol option" where
  "cast_Identifier (Some (Identifier _ s)) = Some s"
| "cast_Identifier _ = None"

fun cast_StringLiteral :: "name option \<Rightarrow> symbol option" where
  "cast_StringLiteral (Some (StringLiteral _ s)) = Some s"
| "cast_StringLiteral _ = None"

text \<open>\<^verbatim>\<open>Name.matches\<close>: the argument may be null.\<close>

fun matches :: "name \<Rightarrow> name option \<Rightarrow> bool" where
  "matches (Identifier _ s) n =
     (case cast_Identifier n of Some other_sym \<Rightarrow> s = other_sym | None \<Rightarrow> False)"
| "matches (StringLiteral _ s) n =
     (case cast_StringLiteral n of Some other_sym \<Rightarrow> s = other_sym | None \<Rightarrow> False)"
| "matches _ n = False"

text \<open>\<^verbatim>\<open>n.is_a(T.BaseId)\<close>.\<close>

fun is_BaseId :: "name \<Rightarrow> bool" where
  "is_BaseId (Identifier _ _) = True"
| "is_BaseId (StringLiteral _ _) = True"
| "is_BaseId (CharLiteral _ _) = True"
| "is_BaseId _ = False"

section \<open>Formal parameters and actuals\<close>

text \<open>
  \<^verbatim>\<open>BaseFormalParamDecl\<close> and its subclasses.  \<^verbatim>\<open>is_mandatory\<close> is
  \<open>False\<close> in the base class and overridden by \<^verbatim>\<open>ParamSpec\<close> only
  (\<^verbatim>\<open>Self.default.is_null\<close>).  The field \<open>fp_entity\<close> is the
  declaration as an entity; \<open>fp_designated\<close> holds the declaration that the type
  expression of the formal designates, the result of a name lookup that is null when
  nothing is found.
\<close>

datatype formal_kind =
    ComponentDecl | ParamSpec
  | GenericFormalObjDecl | GenericFormalTypeDecl | GenericFormalSubpDecl
  | GenericFormalPackage

record formal_param_decl =
  fp_entity :: entity
  fp_kind :: formal_kind
  identifiers :: "name list"
  default_expr :: "node_id option"
  fp_designated :: "entity option"

definition is_mandatory :: "formal_param_decl \<Rightarrow> bool" where
  "is_mandatory d = (case fp_kind d of ParamSpec \<Rightarrow> default_expr d = None | _ \<Rightarrow> False)"

record single_formal =
  sf_name :: name
  sf_spec :: formal_param_decl

text \<open>\<^verbatim>\<open>BaseFormalParamHolder.unpacked_formal_params\<close>, from the abstract formals.\<close>

definition unpacked_formal_params :: "formal_param_decl list \<Rightarrow> single_formal list" where
  "unpacked_formal_params abstract_formal_params =
     concat (map (\<lambda>spec. map (\<lambda>i. \<lparr>sf_name = i, sf_spec = spec\<rparr>) (identifiers spec))
       abstract_formal_params)"

text \<open>\<^verbatim>\<open>BaseSubpSpec.nb_min_params\<close> and \<^verbatim>\<open>nb_max_params\<close> (of type Long).\<close>

definition nb_min_params :: "formal_param_decl list \<Rightarrow> int" where
  "nb_min_params fs =
     int (length (filter (\<lambda>p. is_mandatory (sf_spec p)) (unpacked_formal_params fs)))"

definition nb_max_params :: "formal_param_decl list \<Rightarrow> int" where
  "nb_max_params fs = int (length (unpacked_formal_params fs))"

section \<open>Associations and parameter matching\<close>

text \<open>
  The designator of an association is any node: a name, \<^verbatim>\<open>others\<close>, or
  something else (an expression, a range).  \<^verbatim>\<open>BasicAssoc\<close> is generic in
  the expression it carries.
\<close>

datatype designator = NameNode name | OthersDesignator node_id | OtherNode node_id

datatype 'e basic_assoc =
    ParamAssoc node_id "designator option" 'e
  | AggregateAssoc node_id "designator list" 'e
  | MultiDimArrayAssoc node_id "designator list" 'e

text \<open>\<^verbatim>\<open>BasicAssoc.expr\<close> and \<^verbatim>\<open>BasicAssoc.names\<close>.\<close>

fun expr :: "'e basic_assoc \<Rightarrow> 'e" where
  "expr (ParamAssoc _ _ e) = e"
| "expr (AggregateAssoc _ _ e) = e"
| "expr (MultiDimArrayAssoc _ _ e) = e"

fun names :: "'e basic_assoc \<Rightarrow> designator list" where
  "names (ParamAssoc _ d _) = (case d of None \<Rightarrow> [] | Some n \<Rightarrow> [n])"
| "names (AggregateAssoc _ ds _) = ds"
| "names (MultiDimArrayAssoc _ ds _) = ds"

record 'e single_actual =
  sa_name :: "name option"
  sa_assoc :: "'e basic_assoc"

text \<open>\<^verbatim>\<open>AssocList.unpacked_params\<close>: an association without designator is one positional
  actual; otherwise one actual per designator that is a \<^verbatim>\<open>BaseId\<close>.\<close>

fun cast_BaseId :: "designator \<Rightarrow> name option" where
  "cast_BaseId (NameNode n) = (if is_BaseId n then Some n else None)"
| "cast_BaseId _ = None"

definition unpacked_params :: "'e basic_assoc list \<Rightarrow> 'e single_actual list" where
  "unpacked_params params =
     concat (map (\<lambda>pa. let ns = names pa in
        if length ns = 0 then [\<lparr>sa_name = None, sa_assoc = pa\<rparr>]
        else map (\<lambda>i. \<lparr>sa_name = Some i, sa_assoc = pa\<rparr>) (List.map_filter cast_BaseId ns))
      params)"

text \<open>\<^verbatim>\<open>ParamMatch\<close>; the null struct is \<open>no_param_match\<close>.\<close>

record 'e param_match =
  has_matched :: bool
  pm_actual :: "'e single_actual option"
  pm_formal :: "single_formal option"

definition no_param_match :: "'e param_match" where
  "no_param_match = \<lparr>has_matched = False, pm_actual = None, pm_formal = None\<rparr>"

definition param_match :: "single_formal \<Rightarrow> 'e single_actual \<Rightarrow> 'e param_match" where
  "param_match formal actual =
     \<lparr>has_matched = True, pm_actual = Some actual, pm_formal = Some formal\<rparr>"

text \<open>\<^verbatim>\<open>BaseFormalParamHolder.match_param_list\<close>.\<close>

definition match_param_list ::
  "formal_param_decl list \<Rightarrow> 'e basic_assoc list \<Rightarrow> bool \<Rightarrow> 'e param_match list" where
  "match_param_list fs params is_dottable_subp =
     (let unpacked_formals = unpacked_formal_params fs in
      map (\<lambda>(i, a).
        (case sa_name a of
           None \<Rightarrow>
             (let idx = (if is_dottable_subp then i + 1 else i) in
              case at unpacked_formals idx of
                None \<Rightarrow> no_param_match
              | Some sp \<Rightarrow> param_match sp a)
         | Some ident \<Rightarrow>
             (case find (\<lambda>p. matches (sf_name p) (Some ident)) unpacked_formals of
                None \<Rightarrow> no_param_match
              | Some sp \<Rightarrow> param_match sp a)))
        (enumerate 0 (unpacked_params params)))"

text \<open>
  \<^verbatim>\<open>m.formal.spec.is_mandatory\<close> raises on a null formal; a filter whose
  predicate raises, raises.
\<close>

definition formal_is_mandatory :: "'e param_match \<Rightarrow> error + bool" where
  "formal_is_mandatory m =
     (case pm_formal m of None \<Rightarrow> Inl PropertyError
      | Some f \<Rightarrow> Inr (is_mandatory (sf_spec f)))"

fun filter_err :: "('a \<Rightarrow> error + bool) \<Rightarrow> 'a list \<Rightarrow> error + 'a list" where
  "filter_err p [] = Inr []"
| "filter_err p (x # xs) =
     (case p x of
        Inl e \<Rightarrow> Inl e
      | Inr b \<Rightarrow>
          (case filter_err p xs of
             Inl e \<Rightarrow> Inl e
           | Inr ys \<Rightarrow> Inr (if b then x # ys else ys)))"

text \<open>\<^verbatim>\<open>BaseSubpSpec.is_matching_param_list\<close>; \<^verbatim>\<open>And\<close> evaluates its
  operands in order and stops at the first false one.\<close>

definition is_matching_param_list ::
  "formal_param_decl list \<Rightarrow> 'e basic_assoc list \<Rightarrow> bool \<Rightarrow> error + bool" where
  "is_matching_param_list fs params is_dottable_subp =
     (let match_list = match_param_list fs params is_dottable_subp;
          nb_max = (if is_dottable_subp then nb_max_params fs - 1 else nb_max_params fs);
          nb_min = (if is_dottable_subp then nb_min_params fs - 1 else nb_min_params fs)
      in if \<not> int (length params) \<le> nb_max then Inr False
         else if \<not> list_all has_matched match_list then Inr False
         else (case filter_err formal_is_mandatory match_list of
                 Inl e \<Rightarrow> Inl e
               | Inr ms \<Rightarrow> Inr (int (length ms) = nb_min)))"


section \<open>Type declarations\<close>

text \<open>
  The subclasses of \<^verbatim>\<open>TypeDef\<close> and of \<^verbatim>\<open>BaseTypeDecl\<close>, with the
  fields the modelled properties read.  Where a property reads the type that a subtype
  indication designates (\<^verbatim>\<open>designated_type\<close>, a name lookup), the node holds the
  entity the lookup returns, null when it finds none.  The components of a record
  definition are the nodes of its \<^verbatim>\<open>ComponentList\<close>.
\<close>

datatype component_item = FormalItem formal_param_decl | OtherItem node_id

datatype array_indices =
    UnconstrainedArrayIndices "entity option list"
  | ConstrainedArrayIndices "entity option option list"

datatype type_def =
    RecordTypeDef bool "component_item list"
  | DerivedTypeDef "entity option" "component_item list option"
  | PrivateTypeDef bool
  | SignedIntTypeDef
  | ModIntTypeDef
  | ArrayTypeDef array_indices "entity option"
  | InterfaceTypeDef
  | AccessToSubpDef
  | TypeAccessDef "entity option"
  | FormalDiscreteTypeDef
  | FloatingPointDef
  | OrdinaryFixedPointDef
  | DecimalFixedPointDef

datatype base_type_decl =
    TypeDecl type_def
  | AnonymousTypeDecl type_def
  | EnumTypeDecl
  | SubtypeDecl "entity option"
  | TaskTypeDecl
  | SingleTaskTypeDecl
  | IncompleteTypeDecl
  | IncompleteTaggedTypeDecl
  | ClasswideTypeDecl node_id

text \<open>
  The type declarations of the analysed units, by node.  A property that follows
  designated types may not terminate on a cyclic chain of declarations and may raise a
  property error: its result is \<open>None\<close> when it does not return, \<open>Some (Inl e)\<close>
  when it raises and \<open>Some (Inr v)\<close> when it returns \<open>v\<close>.
\<close>

type_synonym type_table = "node_id \<Rightarrow> base_type_decl"
type_synonym 'a result = "(error + 'a) option"

definition decl_of :: "type_table \<Rightarrow> entity \<Rightarrow> base_type_decl" where
  "decl_of t e = (case el e of Node n \<Rightarrow> t n | ClasswideTypeOf n \<Rightarrow> ClasswideTypeDecl n)"

text \<open>\<^verbatim>\<open>TypeDef.is_tagged_type\<close> and \<^verbatim>\<open>TypeDef.base_type\<close> with their overrides.\<close>

fun typedef_is_tagged_type :: "type_def \<Rightarrow> bool" where
  "typedef_is_tagged_type (RecordTypeDef has_tagged _) = has_tagged"
| "typedef_is_tagged_type (DerivedTypeDef _ _) = True"
| "typedef_is_tagged_type (PrivateTypeDef has_tagged) = has_tagged"
| "typedef_is_tagged_type InterfaceTypeDef = True"
| "typedef_is_tagged_type _ = False"

fun typedef_base_type :: "type_def \<Rightarrow> entity option" where
  "typedef_base_type (DerivedTypeDef d _) = d"
| "typedef_base_type _ = None"

text \<open>\<^verbatim>\<open>BaseTypeDecl.is_tagged_type\<close>, \<^verbatim>\<open>base_type\<close> and \<^verbatim>\<open>classwide_type\<close>
  with their overrides in \<^verbatim>\<open>TypeDecl\<close> and \<^verbatim>\<open>ClasswideTypeDecl\<close>.\<close>

fun is_tagged_type :: "base_type_decl \<Rightarrow> bool" where
  "is_tagged_type (TypeDecl d) = typedef_is_tagged_type d"
| "is_tagged_type (AnonymousTypeDecl d) = typedef_is_tagged_type d"
| "is_tagged_type (ClasswideTypeDecl _) = True"
| "is_tagged_type _ = False"

definition base_type :: "type_table \<Rightarrow> entity \<Rightarrow> entity option" where
  "base_type t self =
     (case decl_of t self of
        TypeDecl d \<Rightarrow> typedef_base_type d
      | AnonymousTypeDecl d \<Rightarrow> typedef_base_type d
      | ClasswideTypeDecl n \<Rightarrow>
          (case t n of
             TypeDecl d \<Rightarrow> typedef_base_type d
           | AnonymousTypeDecl d \<Rightarrow> typedef_base_type d
           | _ \<Rightarrow> None)
      | _ \<Rightarrow> None)"

definition classwide_type :: "type_table \<Rightarrow> entity \<Rightarrow> entity option" where
  "classwide_type t self =
     (case el self of
        ClasswideTypeOf n \<Rightarrow> Some self
      | Node n \<Rightarrow>
          (if is_tagged_type (t n) then Some (self\<lparr>el := ClasswideTypeOf n\<rparr>) else None))"

text \<open>\<^verbatim>\<open>BaseTypeDecl.canonical_type\<close>, overridden by \<^verbatim>\<open>SubtypeDecl\<close>.\<close>

partial_function (option) canonical_type :: "type_table \<Rightarrow> entity \<Rightarrow> entity result" where
  "canonical_type t self =
     (case decl_of t self of
        SubtypeDecl designated \<Rightarrow>
          (case designated of
             None \<Rightarrow> Some (Inl PropertyError)
           | Some d \<Rightarrow> canonical_type t d)
      | _ \<Rightarrow> Some (Inr self))"

text \<open>
  \<^verbatim>\<open>BaseTypeDecl.is_derived_type\<close>.  \<^verbatim>\<open>Or\<close> evaluates its operands in order
  and stops at the first true one; the second operand is \<open>same_classwide_type\<close>.
\<close>

definition same_classwide_type :: "type_table \<Rightarrow> entity \<Rightarrow> entity option \<Rightarrow> error + bool" where
  "same_classwide_type t self other_type =
     (case classwide_type t self of
        None \<Rightarrow> Inr False
      | Some cw \<Rightarrow>
          (case other_type of
             None \<Rightarrow> Inl PropertyError
           | Some other \<Rightarrow> Inr (Some cw = classwide_type t other)))"

partial_function (option) is_derived_type ::
  "type_table \<Rightarrow> entity \<Rightarrow> entity option \<Rightarrow> bool result" where
  "is_derived_type t self other_type =
     (if Some self = other_type then Some (Inr True)
      else
        (case same_classwide_type t self other_type of
           Inl e \<Rightarrow> Some (Inl e)
         | Inr same \<Rightarrow>
             if same then Some (Inr True)
             else
               (case base_type t self of
                  None \<Rightarrow> Some (Inr False)
                | Some b \<Rightarrow> is_derived_type t b other_type)))"

text \<open>\<^verbatim>\<open>BaseTypeDecl.accessed_type\<close> with the overrides of \<^verbatim>\<open>TypeDecl\<close>
  (through \<^verbatim>\<open>TypeDef.accessed_type\<close>) and \<^verbatim>\<open>SubtypeDecl\<close>.\<close>

partial_function (option) accessed_type :: "type_table \<Rightarrow> entity \<Rightarrow> entity option result" where
  "accessed_type t self =
     (case decl_of t self of
        TypeDecl d \<Rightarrow>
          (case d of
             TypeAccessDef designated \<Rightarrow> Some (Inr designated)
           | DerivedTypeDef b _ \<Rightarrow>
               (case b of None \<Rightarrow> Some (Inl PropertyError) | Some bt \<Rightarrow> accessed_type t bt)
           | _ \<Rightarrow> Some (Inr None))
      | AnonymousTypeDecl d \<Rightarrow>
          (case d of
             TypeAccessDef designated \<Rightarrow> Some (Inr designated)
           | DerivedTypeDef b _ \<Rightarrow>
               (case b of None \<Rightarrow> Some (Inl PropertyError) | Some bt \<Rightarrow> accessed_type t bt)
           | _ \<Rightarrow> Some (Inr None))
      | SubtypeDecl designated \<Rightarrow>
          (case canonical_type t self of
             None \<Rightarrow> None
           | Some (Inl e) \<Rightarrow> Some (Inl e)
           | Some (Inr c) \<Rightarrow> accessed_type t c)
      | _ \<Rightarrow> Some (Inr None))"

text \<open>\<^verbatim>\<open>BaseTypeDecl.matching_prefix_type\<close>.\<close>

definition bind_result :: "'a result \<Rightarrow> ('a \<Rightarrow> 'b result) \<Rightarrow> 'b result" where
  "bind_result r f =
     (case r of None \<Rightarrow> None | Some (Inl e) \<Rightarrow> Some (Inl e) | Some (Inr x) \<Rightarrow> f x)"

definition matching_prefix_type ::
  "type_table \<Rightarrow> entity \<Rightarrow> entity option \<Rightarrow> bool result" where
  "matching_prefix_type t self container_type =
     (case container_type of
        None \<Rightarrow> Some (Inl PropertyError)
      | Some container \<Rightarrow>
          bind_result (canonical_type t container) (\<lambda>cont_type.
          bind_result (canonical_type t self) (\<lambda>c.
          bind_result (is_derived_type t c (Some cont_type)) (\<lambda>derived.
            if derived then Some (Inr True)
            else
              bind_result (accessed_type t c) (\<lambda>a.
                case a of
                  None \<Rightarrow> Some (Inr False)
                | Some acc \<Rightarrow> is_derived_type t acc (Some cont_type))))))"

section \<open>Node classes\<close>

text \<open>
  The node classes of \<^verbatim>\<open>ast.py\<close>, each with its base class, in the order of
  the file.  \<^verbatim>\<open>AdaNode\<close> is the root.  An enumeration node class
  (\<^verbatim>\<open>EnumNode\<close>) is a direct subclass of the root, and a list class
  (\<^verbatim>\<open>AdaNode.list\<close>, \<^verbatim>\<open>BasicAssoc.list\<close>) a subclass of the generic
  list class \<^verbatim>\<open>AdaList\<close>.
\<close>

definition class_table :: "(string \<times> string) list" where
  "class_table =
    [(''AdaList'', ''AdaNode''), (''BasicDecl'', ''AdaNode''), (''Body'', ''BasicDecl''),
     (''BodyStub'', ''Body''), (''DiscriminantSpec'', ''BasicDecl''),
     (''DiscriminantPart'', ''AdaNode''),
     (''KnownDiscriminantPart'', ''DiscriminantPart''),
     (''UnknownDiscriminantPart'', ''DiscriminantPart''), (''TypeDef'', ''AdaNode''),
     (''Variant'', ''AdaNode''), (''VariantPart'', ''AdaNode''),
     (''BaseFormalParamDecl'', ''BasicDecl''),
     (''ComponentDecl'', ''BaseFormalParamDecl''),
     (''BaseFormalParamHolder'', ''AdaNode''),
     (''ComponentList'', ''BaseFormalParamHolder''), (''BaseRecordDef'', ''AdaNode''),
     (''RecordDef'', ''BaseRecordDef''), (''NullRecordDef'', ''BaseRecordDef''),
     (''Tagged'', ''AdaNode''), (''Abstract'', ''AdaNode''), (''Limited'', ''AdaNode''),
     (''Private'', ''AdaNode''), (''Aliased'', ''AdaNode''), (''NotNull'', ''AdaNode''),
     (''Constant'', ''AdaNode''), (''All'', ''AdaNode''), (''Abort'', ''AdaNode''),
     (''Reverse'', ''AdaNode''), (''WithPrivate'', ''AdaNode''), (''Until'', ''AdaNode''),
     (''Synchronized'', ''AdaNode''), (''Protected'', ''AdaNode''),
     (''RecordTypeDef'', ''TypeDef''), (''RealTypeDef'', ''TypeDef''),
     (''BaseTypeDecl'', ''BasicDecl''), (''ClasswideTypeDecl'', ''BaseTypeDecl''),
     (''TypeDecl'', ''BaseTypeDecl''), (''AnonymousTypeDecl'', ''TypeDecl''),
     (''EnumTypeDecl'', ''BaseTypeDecl''), (''FloatingPointDef'', ''RealTypeDef''),
     (''OrdinaryFixedPointDef'', ''RealTypeDef''),
     (''DecimalFixedPointDef'', ''RealTypeDef''), (''BaseAssoc'', ''AdaNode''),
     (''Constraint'', ''AdaNode''), (''RangeConstraint'', ''Constraint''),
     (''DigitsConstraint'', ''Constraint''), (''DeltaConstraint'', ''Constraint''),
     (''IndexConstraint'', ''Constraint''), (''DiscriminantConstraint'', ''Constraint''),
     (''DiscriminantAssoc'', ''Constraint''), (''DerivedTypeDef'', ''TypeDef''),
     (''PrivateTypeDef'', ''TypeDef''), (''SignedIntTypeDef'', ''TypeDef''),
     (''ModIntTypeDef'', ''TypeDef''), (''ArrayIndices'', ''AdaNode''),
     (''UnconstrainedArrayIndices'', ''ArrayIndices''),
     (''ConstrainedArrayIndices'', ''ArrayIndices''), (''ComponentDef'', ''AdaNode''),
     (''ArrayTypeDef'', ''TypeDef''), (''InterfaceKind'', ''AdaNode''),
     (''InterfaceTypeDef'', ''TypeDef''), (''SubtypeDecl'', ''BaseTypeDecl''),
     (''TaskDef'', ''AdaNode''), (''ProtectedDef'', ''AdaNode''),
     (''TaskTypeDecl'', ''BaseTypeDecl''), (''SingleTaskTypeDecl'', ''TaskTypeDecl''),
     (''ProtectedTypeDecl'', ''BasicDecl''), (''AccessDef'', ''TypeDef''),
     (''AccessToSubpDef'', ''AccessDef''), (''TypeAccessDef'', ''AccessDef''),
     (''FormalDiscreteTypeDef'', ''TypeDef''), (''NullComponentDecl'', ''AdaNode''),
     (''WithClause'', ''AdaNode''), (''UseClause'', ''AdaNode''),
     (''UsePackageClause'', ''UseClause''), (''UseTypeClause'', ''UseClause''),
     (''TypeExpr'', ''AdaNode''), (''AnonymousType'', ''TypeExpr''),
     (''SubtypeIndication'', ''TypeExpr''),
     (''ConstrainedSubtypeIndication'', ''SubtypeIndication''),
     (''DiscreteSubtypeIndication'', ''SubtypeIndication''), (''Mode'', ''AdaNode''),
     (''ParamSpec'', ''BaseFormalParamDecl''), (''AspectSpec'', ''AdaNode''),
     (''Overriding'', ''AdaNode''), (''BasicSubpDecl'', ''BasicDecl''),
     (''ClassicSubpDecl'', ''BasicSubpDecl''), (''SubpDecl'', ''ClassicSubpDecl''),
     (''NullSubpDecl'', ''ClassicSubpDecl''), (''AbstractSubpDecl'', ''ClassicSubpDecl''),
     (''ExprFunction'', ''ClassicSubpDecl''), (''SubpRenamingDecl'', ''ClassicSubpDecl''),
     (''Pragma'', ''AdaNode''), (''PragmaArgumentAssoc'', ''BaseAssoc''),
     (''AspectClause'', ''AdaNode''), (''EnumRepClause'', ''AspectClause''),
     (''AttributeDefClause'', ''AspectClause''), (''ComponentClause'', ''AdaNode''),
     (''RecordRepClause'', ''AspectClause''), (''AtClause'', ''AspectClause''),
     (''SingleTaskDecl'', ''BasicDecl''), (''SingleProtectedDecl'', ''BasicDecl''),
     (''AspectAssoc'', ''AdaNode''), (''NumberDecl'', ''BasicDecl''),
     (''ObjectDecl'', ''BasicDecl''), (''ExtendedReturnStmtObjectDecl'', ''ObjectDecl''),
     (''DeclarativePart'', ''AdaNode''), (''PrivatePart'', ''DeclarativePart''),
     (''PublicPart'', ''DeclarativePart''), (''BasePackageDecl'', ''BasicDecl''),
     (''PackageDecl'', ''BasePackageDecl''), (''ExceptionDecl'', ''BasicDecl''),
     (''GenericInstantiation'', ''BasicDecl''), (''EnvHolder'', ''AdaNode''),
     (''GenericSubpInstantiation'', ''GenericInstantiation''),
     (''GenericPackageInstantiation'', ''GenericInstantiation''),
     (''RenamingClause'', ''AdaNode''), (''PackageRenamingDecl'', ''BasicDecl''),
     (''GenericRenamingDecl'', ''BasicDecl''),
     (''GenericPackageRenamingDecl'', ''GenericRenamingDecl''),
     (''SubpKind'', ''AdaNode''), (''GenericSubpRenamingDecl'', ''GenericRenamingDecl''),
     (''FormalSubpDecl'', ''ClassicSubpDecl''),
     (''ConcreteFormalSubpDecl'', ''FormalSubpDecl''),
     (''AbstractFormalSubpDecl'', ''FormalSubpDecl''),
     (''GenericFormalPart'', ''BaseFormalParamHolder''),
     (''GenericFormal'', ''BaseFormalParamDecl''),
     (''GenericFormalObjDecl'', ''GenericFormal''),
     (''GenericFormalTypeDecl'', ''GenericFormal''),
     (''GenericFormalSubpDecl'', ''GenericFormal''),
     (''GenericFormalPackage'', ''GenericFormal''),
     (''GenericSubpInternal'', ''BasicSubpDecl''), (''GenericDecl'', ''BasicDecl''),
     (''GenericSubpDecl'', ''GenericDecl''),
     (''GenericPackageInternal'', ''BasePackageDecl''),
     (''GenericPackageDecl'', ''GenericDecl''), (''Expr'', ''AdaNode''),
     (''ContractCaseAssoc'', ''BaseAssoc''), (''ContractCases'', ''Expr''),
     (''ParenExpr'', ''Expr''), (''Op'', ''AdaNode''), (''UnOp'', ''Expr''),
     (''BinOp'', ''Expr''), (''RelationOp'', ''BinOp''), (''MembershipExpr'', ''Expr''),
     (''BaseAggregate'', ''Expr''), (''Aggregate'', ''BaseAggregate''),
     (''NullRecordAggregate'', ''BaseAggregate''), (''Name'', ''Expr''),
     (''CallExpr'', ''Name''), (''BasicAssoc'', ''AdaNode''),
     (''ParamAssoc'', ''BasicAssoc''), (''AggregateAssoc'', ''BasicAssoc''),
     (''MultiDimArrayAssoc'', ''AggregateAssoc''), (''AssocList'', ''AdaList''),
     (''DeclList'', ''AdaList''), (''StmtList'', ''AdaList''),
     (''ExplicitDeref'', ''Name''), (''BoxExpr'', ''Expr''),
     (''OthersDesignator'', ''AdaNode''), (''IfExpr'', ''Expr''),
     (''ElsifExprPart'', ''AdaNode''), (''CaseExpr'', ''Expr''),
     (''CaseExprAlternative'', ''Expr''), (''SingleTokNode'', ''Name''),
     (''BaseId'', ''SingleTokNode''), (''Identifier'', ''BaseId''),
     (''StringLiteral'', ''BaseId''), (''EnumLiteralDecl'', ''BasicDecl''),
     (''CharLiteral'', ''BaseId''), (''NumLiteral'', ''SingleTokNode''),
     (''RealLiteral'', ''NumLiteral''), (''IntLiteral'', ''NumLiteral''),
     (''NullLiteral'', ''SingleTokNode''), (''BaseSubpSpec'', ''BaseFormalParamHolder''),
     (''SubpSpec'', ''BaseSubpSpec''), (''EntryDecl'', ''BasicDecl''),
     (''Quantifier'', ''AdaNode''), (''IterType'', ''AdaNode''),
     (''LoopSpec'', ''AdaNode''), (''ForLoopVarDecl'', ''BasicDecl''),
     (''ForLoopSpec'', ''LoopSpec''), (''QuantifiedExpr'', ''Expr''),
     (''Allocator'', ''Expr''), (''QualExpr'', ''Name''), (''AttributeRef'', ''Name''),
     (''UpdateAttributeRef'', ''AttributeRef''), (''RaiseExpr'', ''Expr''),
     (''DottedName'', ''Name''), (''CompilationUnit'', ''AdaNode''),
     (''SubpBody'', ''Body''), (''HandledStmts'', ''AdaNode''),
     (''ExceptionHandler'', ''AdaNode''), (''Stmt'', ''AdaNode''),
     (''SimpleStmt'', ''Stmt''), (''CompositeStmt'', ''Stmt''),
     (''CallStmt'', ''SimpleStmt''), (''NullStmt'', ''SimpleStmt''),
     (''AssignStmt'', ''SimpleStmt''), (''GotoStmt'', ''SimpleStmt''),
     (''ExitStmt'', ''SimpleStmt''), (''ReturnStmt'', ''SimpleStmt''),
     (''RequeueStmt'', ''SimpleStmt''), (''AbortStmt'', ''SimpleStmt''),
     (''DelayStmt'', ''SimpleStmt''), (''RaiseStmt'', ''SimpleStmt''),
     (''IfStmt'', ''CompositeStmt''), (''ElsifStmtPart'', ''AdaNode''),
     (''LabelDecl'', ''BasicDecl''), (''Label'', ''SimpleStmt''),
     (''WhileLoopSpec'', ''LoopSpec''), (''NamedStmtDecl'', ''BasicDecl''),
     (''NamedStmt'', ''CompositeStmt''), (''BaseLoopStmt'', ''CompositeStmt''),
     (''LoopStmt'', ''BaseLoopStmt''), (''ForLoopStmt'', ''BaseLoopStmt''),
     (''WhileLoopStmt'', ''BaseLoopStmt''), (''BlockStmt'', ''CompositeStmt''),
     (''DeclBlock'', ''BlockStmt''), (''BeginBlock'', ''BlockStmt''),
     (''ExtendedReturnStmt'', ''CompositeStmt''), (''CaseStmt'', ''CompositeStmt''),
     (''CaseStmtAlternative'', ''AdaNode''), (''AcceptStmt'', ''CompositeStmt''),
     (''AcceptStmtWithStmts'', ''AcceptStmt''), (''SelectStmt'', ''CompositeStmt''),
     (''SelectWhenPart'', ''AdaNode''), (''TerminateAlternative'', ''SimpleStmt''),
     (''PackageBody'', ''Body''), (''TaskBody'', ''Body''), (''ProtectedBody'', ''Body''),
     (''EntryBody'', ''Body''), (''EntryIndexSpec'', ''AdaNode''),
     (''Subunit'', ''AdaNode''), (''ProtectedBodyStub'', ''BodyStub''),
     (''SubpBodyStub'', ''BodyStub''), (''PackageBodyStub'', ''BodyStub''),
     (''TaskBodyStub'', ''BodyStub''), (''LibraryItem'', ''AdaNode''),
     (''RangeSpec'', ''AdaNode''), (''IncompleteTypeDecl'', ''BaseTypeDecl''),
     (''IncompleteTaggedTypeDecl'', ''IncompleteTypeDecl''), (''Params'', ''AdaNode''),
     (''ParentList'', ''AdaList''), (''DiscriminantChoiceList'', ''AdaList''),
     (''AlternativesList'', ''AdaList''), (''ConstraintList'', ''AdaList''),
     (''UnconstrainedArrayIndex'', ''AdaNode'')]"

text \<open>The base class, and the chain of classes from a class up to the root; the chain
  has at most as many links as the table has rows.\<close>

fun lookup_class :: "(string \<times> string) list \<Rightarrow> string \<Rightarrow> string option" where
  "lookup_class [] c = None"
| "lookup_class ((k, b) # rest) c = (if k = c then Some b else lookup_class rest c)"

definition superclass :: "string \<Rightarrow> string option" where
  "superclass c = lookup_class class_table c"

fun ancestors :: "'a list \<Rightarrow> string \<Rightarrow> string list" where
  "ancestors [] c = [c]"
| "ancestors (_ # fuel) c =
     c # (case superclass c of None \<Rightarrow> [] | Some b \<Rightarrow> ancestors fuel b)"

definition mro :: "string \<Rightarrow> string list" where
  "mro c = ancestors class_table c"

definition is_a :: "string \<Rightarrow> string \<Rightarrow> bool" where
  "is_a c k = (k \<in> set (mro c))"




section \<open>The resolution driver\<close>







text \<open>
  Logic variables: \<^verbatim>\<open>Expr.type_var\<close> of an expression node, and the reference
  variable of a single-token name (\<^verbatim>\<open>r_ref_var\<close>) or of an operator node
  (\<^verbatim>\<open>Op.ref_var\<close>), each identified by its node.  An equation is the data the
  properties build: \<^verbatim>\<open>LogicTrue()\<close>, \<^verbatim>\<open>Bind\<close> of a variable to a variable
  or to a value with an optional \<^verbatim>\<open>eq_prop\<close>, \<^verbatim>\<open>Predicate\<close>,
  \<^verbatim>\<open>domain\<close>, the operators \<^verbatim>\<open>&\<close> and \<^verbatim>\<open>|\<close>, and
  \<^verbatim>\<open>logic_all\<close> and \<^verbatim>\<open>logic_any\<close> over a collection;
  \<open>NoEquation\<close> is \<^verbatim>\<open>No(EquationType)\<close>.
\<close>

datatype logic_var = TypeVar node_id | RefVar node_id

datatype bind_to = ToVar logic_var | ToValue "entity option"

datatype equation =
    NoEquation
  | LogicTrue
  | Bind logic_var bind_to "string option"
  | Predicate string logic_var
  | LogicDomain logic_var "entity list"
  | And equation equation
  | Or equation equation
  | LogicAll "equation list"
  | LogicAny "equation list"

text \<open>The equations \<^verbatim>\<open>|\<close> and \<^verbatim>\<open>logic_any\<close> build are the disjunctions.\<close>

fun is_disjunction :: "equation \<Rightarrow> bool" where
  "is_disjunction (Or _ _) = True"
| "is_disjunction (LogicAny _) = True"
| "is_disjunction _ = False"



text \<open>A map whose function may raise or not return: the first failure is the result.\<close>

fun map_result :: "('a \<Rightarrow> 'b result) \<Rightarrow> 'a list \<Rightarrow> 'b list result" where
  "map_result f [] = Some (Inr [])"
| "map_result f (x # xs) =
     bind_result (f x) (\<lambda>y. bind_result (map_result f xs) (\<lambda>ys. Some (Inr (y # ys))))"

text \<open>
  The alternatives of \<^verbatim>\<open>Op\<close> and the symbol \<^verbatim>\<open>Op.subprograms\<close> looks
  up for each; the symbols of operators contain the double quotes.
\<close>

datatype op =
    alt_and | alt_or | alt_or_else | alt_and_then | alt_xor | alt_in | alt_not_in | alt_abs
  | alt_not | alt_pow | alt_mult | alt_div | alt_mod | alt_rem | alt_plus | alt_minus
  | alt_concat | alt_eq | alt_neq | alt_lt | alt_lte | alt_gt | alt_gte | alt_double_dot

definition quoted :: "string \<Rightarrow> symbol" where
  "quoted s = CHR 0x22 # s @ [CHR 0x22]"

fun op_symbol :: "op \<Rightarrow> symbol" where
  "op_symbol alt_and = quoted ''and''"
| "op_symbol alt_or = quoted ''or''"
| "op_symbol alt_xor = quoted ''xor''"
| "op_symbol alt_abs = quoted ''abs''"
| "op_symbol alt_not = quoted ''not''"
| "op_symbol alt_pow = quoted ''**''"
| "op_symbol alt_mult = quoted ''*''"
| "op_symbol alt_div = quoted ''/''"
| "op_symbol alt_mod = quoted ''mod''"
| "op_symbol alt_rem = quoted ''rem''"
| "op_symbol alt_plus = quoted ''+''"
| "op_symbol alt_minus = quoted ''-''"
| "op_symbol alt_concat = quoted ''&''"
| "op_symbol alt_eq = quoted ''=''"
| "op_symbol alt_neq = quoted ''/=''"
| "op_symbol alt_lt = quoted ''<''"
| "op_symbol alt_lte = quoted ''<=''"
| "op_symbol alt_gt = quoted ''>''"
| "op_symbol alt_gte = quoted ''>=''"
| "op_symbol _ = ''<<>>''"

text \<open>
  A subprogram specification: its formals and its return type expression, null for a
  procedure, with the type it designates.  An element of a lexical environment as a
  lookup returns it: the entity, the class of its node and, for a subprogram
  declaration, its specification (\<^verbatim>\<open>subp_decl_spec\<close>).
\<close>

record subp_spec =
  subp_params :: "formal_param_decl list"
  subp_returns :: "entity option option"

record env_element =
  ee_entity :: entity
  ee_class :: string
  ee_subp_decl_spec :: "subp_spec option"

text \<open>
  What the equation builders read from outside the expression: the type declarations,
  the lookup \<^verbatim>\<open>Self.node_env.get\<close> from the environment of a node, the current
  value of the type variable of a node (\<^verbatim>\<open>type_val\<close>, null when unbound), the
  entity of \<^verbatim>\<open>Boolean\<close>, and the equation of every node whose
  \<^verbatim>\<open>xref_equation\<close> is not modelled here.
\<close>

record xref_context =
  ctx_types :: type_table
  node_env_get :: "node_id \<Rightarrow> symbol \<Rightarrow> env_element list"
  type_val :: "node_id \<Rightarrow> entity option"
  bool_type :: "entity option result"
  other_xref_equation :: "node_id \<Rightarrow> equation result"

record op_node =
  op_id :: node_id
  op_alt :: op

text \<open>\<^verbatim>\<open>Op.subprograms\<close>.\<close>

definition subprograms :: "xref_context \<Rightarrow> op_node \<Rightarrow> env_element list" where
  "subprograms ctx self =
     filter (\<lambda>e. is_a (ee_class e) ''BasicSubpDecl'')
       (node_env_get ctx (op_id self) (op_symbol (op_alt self)))"

text \<open>
  \<^verbatim>\<open>Self.type_expression.designated_type\<close> of a formal: only \<^verbatim>\<open>ParamSpec\<close>
  and \<^verbatim>\<open>ComponentDecl\<close> define \<^verbatim>\<open>type_expression\<close>, the others inherit the
  null one.  \<open>formal_type\<close> is \<^verbatim>\<open>ps.at(i).spec.type\<close>, that is
  \<^verbatim>\<open>BaseFormalParamDecl.type\<close> of the formal at an index.
\<close>

definition type_expression_designated_type :: "formal_param_decl \<Rightarrow> error + entity option" where
  "type_expression_designated_type d =
     (case fp_kind d of
        ParamSpec \<Rightarrow> Inr (fp_designated d)
      | ComponentDecl \<Rightarrow> Inr (fp_designated d)
      | _ \<Rightarrow> Inl PropertyError)"

definition formal_type :: "type_table \<Rightarrow> single_formal option \<Rightarrow> entity result" where
  "formal_type t formal =
     (case formal of
        None \<Rightarrow> Some (Inl PropertyError)
      | Some f \<Rightarrow>
          (case type_expression_designated_type (sf_spec f) of
             Inl e \<Rightarrow> Some (Inl e)
           | Inr None \<Rightarrow> Some (Inl PropertyError)
           | Inr (Some d) \<Rightarrow> canonical_type t d))"

definition returns_designated_type :: "subp_spec \<Rightarrow> entity option result" where
  "returns_designated_type spec =
     (case subp_returns spec of None \<Rightarrow> Some (Inl PropertyError) | Some d \<Rightarrow> Some (Inr d))"

text \<open>
  \<^verbatim>\<open>BinOp.xref_equation\<close>: the equation of one overload, the fallback
  \<^verbatim>\<open>no_overload_equation\<close> of \<^verbatim>\<open>BinOp\<close> and of \<^verbatim>\<open>RelationOp\<close>, and
  the whole equation from the operands, each given by its node and its sub-equation.
\<close>

definition overload_equation ::
  "type_table \<Rightarrow> node_id \<Rightarrow> node_id \<Rightarrow> node_id \<Rightarrow> node_id \<Rightarrow> env_element \<Rightarrow> equation result" where
  "overload_equation t self left right op_ref subp =
     (case ee_subp_decl_spec subp of
        None \<Rightarrow> Some (Inl PropertyError)
      | Some spec \<Rightarrow>
          (let ps = unpacked_formal_params (subp_params spec) in
           bind_result (formal_type t (at ps 0)) (\<lambda>t0.
           bind_result (formal_type t (at ps 1)) (\<lambda>t1.
           bind_result (returns_designated_type spec) (\<lambda>rt.
             Some (Inr
               (And (And (And (Bind (TypeVar left) (ToValue (Some t0)) None)
                              (Bind (TypeVar right) (ToValue (Some t1)) None))
                         (Bind (TypeVar self) (ToValue rt) None))
                    (Bind (RefVar op_ref) (ToValue (Some (ee_entity subp))) None))))))))"

definition no_overload_equation ::
  "xref_context \<Rightarrow> bool \<Rightarrow> node_id \<Rightarrow> node_id \<Rightarrow> node_id \<Rightarrow> equation result" where
  "no_overload_equation ctx relation self left right =
     (if relation then
        bind_result (bool_type ctx) (\<lambda>b.
          Some (Inr (And (Bind (TypeVar left) (ToVar (TypeVar right)) None)
                         (Bind (TypeVar self) (ToValue b) None))))
      else
        Some (Inr (And (Bind (TypeVar self) (ToVar (TypeVar left)) None)
                       (Bind (TypeVar self) (ToVar (TypeVar right)) None))))"

definition BinOp_xref_equation ::
  "xref_context \<Rightarrow> bool \<Rightarrow> node_id \<Rightarrow> node_id \<times> equation result \<Rightarrow> op_node
   \<Rightarrow> node_id \<times> equation result \<Rightarrow> equation result" where
  "BinOp_xref_equation ctx relation self left op_n right =
     (let subps = subprograms ctx op_n in
      bind_result (snd left) (\<lambda>le.
      bind_result (snd right) (\<lambda>re.
      bind_result (map_result
          (overload_equation (ctx_types ctx) self (fst left) (fst right) (op_id op_n)) subps) (\<lambda>bs.
      bind_result (no_overload_equation ctx relation self (fst left) (fst right)) (\<lambda>no.
        Some (Inr (And (And le re) (Or (LogicAny bs) no))))))))"

text \<open>
  \<^verbatim>\<open>BaseTypeDecl.record_def\<close> followed by \<^verbatim>\<open>comps\<close>: the component list of
  a type and, for a derived type, its base type; then
  \<^verbatim>\<open>ComponentList.abstract_formal_params\<close>, the components of the base type
  before the type's own.
\<close>

fun typedef_record :: "type_def \<Rightarrow> error + component_item list \<times> entity option option" where
  "typedef_record (RecordTypeDef _ comps) = Inr (comps, None)"
| "typedef_record (DerivedTypeDef b (Some comps)) = Inr (comps, Some b)"
| "typedef_record _ = Inl PropertyError"

definition record_components ::
  "type_table \<Rightarrow> entity \<Rightarrow> error + component_item list \<times> entity option option" where
  "record_components t td =
     (case decl_of t td of
        TypeDecl d \<Rightarrow> typedef_record d
      | AnonymousTypeDecl d \<Rightarrow> typedef_record d
      | ClasswideTypeDecl n \<Rightarrow>
          (case t n of
             TypeDecl d \<Rightarrow> typedef_record d
           | AnonymousTypeDecl d \<Rightarrow> typedef_record d
           | _ \<Rightarrow> Inl PropertyError)
      | _ \<Rightarrow> Inl PropertyError)"

fun keep_BaseFormalParamDecl :: "component_item list \<Rightarrow> formal_param_decl list" where
  "keep_BaseFormalParamDecl [] = []"
| "keep_BaseFormalParamDecl (FormalItem d # cs) = d # keep_BaseFormalParamDecl cs"
| "keep_BaseFormalParamDecl (OtherItem _ # cs) = keep_BaseFormalParamDecl cs"

partial_function (option) record_formals ::
  "type_table \<Rightarrow> entity \<Rightarrow> formal_param_decl list result" where
  "record_formals t td =
     (case record_components t td of
        Inl e \<Rightarrow> Some (Inl e)
      | Inr (comps, parent) \<Rightarrow>
          (case parent of
             None \<Rightarrow> Some (Inr (keep_BaseFormalParamDecl comps))
           | Some None \<Rightarrow> Some (Inl PropertyError)
           | Some (Some b) \<Rightarrow>
               Option.bind (record_formals t b) (\<lambda>r.
                 case r of
                   Inl e \<Rightarrow> Some (Inl e)
                 | Inr ps \<Rightarrow> Some (Inr (ps @ keep_BaseFormalParamDecl comps)))))"

text \<open>\<^verbatim>\<open>BaseTypeDecl.array_def\<close> and \<^verbatim>\<open>ArrayTypeDef.comp_type\<close>.\<close>

definition array_def :: "type_table \<Rightarrow> entity \<Rightarrow> (array_indices \<times> entity option) option" where
  "array_def t td =
     (case decl_of t td of
        TypeDecl (ArrayTypeDef ind ct) \<Rightarrow> Some (ind, ct)
      | AnonymousTypeDecl (ArrayTypeDef ind ct) \<Rightarrow> Some (ind, ct)
      | _ \<Rightarrow> None)"

definition comp_type :: "type_table \<Rightarrow> array_indices \<times> entity option \<Rightarrow> entity result" where
  "comp_type t atd =
     (case snd atd of None \<Rightarrow> Some (Inl PropertyError) | Some d \<Rightarrow> canonical_type t d)"

text \<open>The node of a name.\<close>

fun name_id :: "name \<Rightarrow> node_id" where
  "name_id (CallExpr n) = n"
| "name_id (ExplicitDeref n) = n"
| "name_id (Identifier n _) = n"
| "name_id (StringLiteral n _) = n"
| "name_id (CharLiteral n _) = n"
| "name_id (RealLiteral n _) = n"
| "name_id (IntLiteral n _) = n"
| "name_id (NullLiteral n _) = n"
| "name_id (QualExpr n) = n"
| "name_id (AttributeRef n) = n"
| "name_id (UpdateAttributeRef n) = n"
| "name_id (DottedName n) = n"

text \<open>
  \<^verbatim>\<open>Aggregate.xref_equation\<close>, from the associations with each expression given
  by its node and its sub-equation: the conjunct of one match in the record case, the
  conjunct of one association in the array case, and the whole equation.
\<close>

definition record_assoc_equation ::
  "(node_id \<times> equation result) param_match \<Rightarrow> equation result" where
  "record_assoc_equation pm =
     (case (pm_actual pm, pm_formal pm) of
        (Some a, Some f) \<Rightarrow>
          bind_result (Some (type_expression_designated_type (sf_spec f))) (\<lambda>dt.
          bind_result (snd (expr (sa_assoc a))) (\<lambda>se.
            Some (Inr
              (And (And (Bind (TypeVar (fst (expr (sa_assoc a)))) (ToValue dt) None) se)
                   (case sa_name a of
                      None \<Rightarrow> LogicTrue
                    | Some nm \<Rightarrow>
                        Bind (RefVar (name_id nm)) (ToValue (Some (fp_entity (sf_spec f))))
                          None)))))
      | _ \<Rightarrow> Some (Inl PropertyError))"

definition array_assoc_equation ::
  "type_table \<Rightarrow> array_indices \<times> entity option \<Rightarrow> (node_id \<times> equation result) basic_assoc
   \<Rightarrow> equation result" where
  "array_assoc_equation t atd assoc =
     bind_result (snd (expr assoc)) (\<lambda>se.
     bind_result (comp_type t atd) (\<lambda>ct.
       Some (Inr (And se (Bind (TypeVar (fst (expr assoc))) (ToValue (Some ct)) None)))))"

definition Aggregate_xref_equation ::
  "xref_context \<Rightarrow> node_id \<Rightarrow> (node_id \<times> equation result) basic_assoc list \<Rightarrow> equation result" where
  "Aggregate_xref_equation ctx self assocs =
     (case type_val ctx self of
        None \<Rightarrow> Some (Inl PropertyError)
      | Some td \<Rightarrow>
          (case array_def (ctx_types ctx) td of
             None \<Rightarrow>
               bind_result (record_formals (ctx_types ctx) td) (\<lambda>fs.
               bind_result (map_result record_assoc_equation (match_param_list fs assocs False))
                 (\<lambda>bs. Some (Inr (LogicAll bs))))
           | Some atd \<Rightarrow>
               bind_result (map_result (array_assoc_equation (ctx_types ctx) atd) assocs)
                 (\<lambda>bs. Some (Inr (LogicAll bs)))))"

text \<open>
  Expressions.  The equations of binary operators, parenthesized expressions,
  aggregates and literals are built here; every other node takes its equation from
  the context.  \<^verbatim>\<open>xref_stop_resolution\<close> is true for aggregates only.
\<close>

datatype ada_expr =
    BinOp node_id ada_expr op_node ada_expr
  | RelationOp node_id ada_expr op_node ada_expr
  | ParenExpr node_id ada_expr
  | Aggregate node_id "ada_expr option" "ada_expr basic_assoc list"
  | NameExpr name
  | OtherExpr node_id

fun expr_id :: "ada_expr \<Rightarrow> node_id" where
  "expr_id (BinOp n _ _ _) = n"
| "expr_id (RelationOp n _ _ _) = n"
| "expr_id (ParenExpr n _) = n"
| "expr_id (Aggregate n _ _) = n"
| "expr_id (NameExpr nm) = name_id nm"
| "expr_id (OtherExpr n) = n"

fun expr_xref_stop_resolution :: "ada_expr \<Rightarrow> bool" where
  "expr_xref_stop_resolution (Aggregate _ _ _) = True"
| "expr_xref_stop_resolution _ = False"

text \<open>\<^verbatim>\<open>AdaNode.sub_equation\<close> and \<^verbatim>\<open>xref_equation\<close> with its overrides.\<close>

lemma size_basic_assoc_member:
  "z \<in> set_basic_assoc a \<Longrightarrow> a \<in> set assocs
   \<Longrightarrow> size z < Suc (size_list (size_basic_assoc size) assocs)"
proof -
  assume z: "z \<in> set_basic_assoc a" and a: "a \<in> set assocs"
  from z have "size z < Suc (size_basic_assoc size a)" by (cases a) auto
  moreover from a have "size_basic_assoc size a \<le> size_list (size_basic_assoc size) assocs"
    by (simp add: size_list_estimation')
  ultimately show ?thesis by simp
qed

function (sequential) xref_equation :: "xref_context \<Rightarrow> ada_expr \<Rightarrow> equation result"
  and sub_equation :: "xref_context \<Rightarrow> ada_expr \<Rightarrow> equation result" where
  "sub_equation ctx e =
     (if expr_xref_stop_resolution e then Some (Inr LogicTrue) else xref_equation ctx e)"
| "xref_equation ctx (BinOp n l op_n r) =
     BinOp_xref_equation ctx False n (expr_id l, sub_equation ctx l) op_n
       (expr_id r, sub_equation ctx r)"
| "xref_equation ctx (RelationOp n l op_n r) =
     BinOp_xref_equation ctx True n (expr_id l, sub_equation ctx l) op_n
       (expr_id r, sub_equation ctx r)"
| "xref_equation ctx (ParenExpr n e) =
     bind_result (sub_equation ctx e) (\<lambda>se.
       Some (Inr (And se (Bind (TypeVar (expr_id e)) (ToVar (TypeVar n)) None))))"
| "xref_equation ctx (Aggregate n anc assocs) =
     Aggregate_xref_equation ctx n
       (map (map_basic_assoc (\<lambda>e. (expr_id e, sub_equation ctx e))) assocs)"
| "xref_equation ctx (NameExpr (StringLiteral n _)) =
     Some (Inr (Predicate ''is_str_type'' (TypeVar n)))"
| "xref_equation ctx (NameExpr (CharLiteral n _)) =
     Some (Inr (Predicate ''is_char_type'' (TypeVar n)))"
| "xref_equation ctx (NameExpr (RealLiteral n _)) =
     Some (Inr (Predicate ''is_real_type'' (TypeVar n)))"
| "xref_equation ctx (NameExpr (IntLiteral n _)) =
     Some (Inr (Predicate ''is_int_type'' (TypeVar n)))"
| "xref_equation ctx (NameExpr nm) = other_xref_equation ctx (name_id nm)"
| "xref_equation ctx (OtherExpr n) = other_xref_equation ctx n"
  by pat_completeness auto

termination
proof (relation "measure (\<lambda>x. case x of Inl (ctx, e) \<Rightarrow> 2 * size e
                                     | Inr (ctx, e) \<Rightarrow> 2 * size e + 1)", goal_cases)
  case (8 ctx n anc assocs x z)
  then show ?case using size_basic_assoc_member[of z x assocs] by simp
qed simp_all

declare sub_equation.simps [simp del]



text \<open>
  The equation \<open>b\<close> is the branch of the overload \<open>subp\<close>: it binds the type
  variable of the left operand to the type of the first formal, that of the right operand
  to the type of the second formal, the type variable of the node to the return type and
  the reference variable of the operator to the overload.
\<close>

definition overload_branch ::
  "type_table \<Rightarrow> node_id \<Rightarrow> node_id \<Rightarrow> node_id \<Rightarrow> node_id \<Rightarrow> env_element \<Rightarrow> equation
   \<Rightarrow> bool" where
  "overload_branch t self left right op_ref subp b =
     (\<exists>spec f0 f1 t0 t1 rt.
        ee_subp_decl_spec subp = Some spec
      \<and> at (unpacked_formal_params (subp_params spec)) 0 = Some f0
      \<and> at (unpacked_formal_params (subp_params spec)) 1 = Some f1
      \<and> formal_type t (Some f0) = Some (Inr t0)
      \<and> formal_type t (Some f1) = Some (Inr t1)
      \<and> subp_returns spec = Some rt
      \<and> b = And (And (And (Bind (TypeVar left) (ToValue (Some t0)) None)
                          (Bind (TypeVar right) (ToValue (Some t1)) None))
                     (Bind (TypeVar self) (ToValue rt) None))
                (Bind (RefVar op_ref) (ToValue (Some (ee_entity subp))) None))"



text \<open>
  Modelled from the spec: the lexical environments of the Langkit library
  (\<^verbatim>\<open>LexicalEnvType\<close>, \<^verbatim>\<open>get\<close>, \<^verbatim>\<open>rebind_env\<close>), which
  \<^verbatim>\<open>ast.py\<close> only calls.  An environment is a scope record: the entities stored
  under each symbol in insertion order, a nullable parent link and an ordered list of
  referenced-environment descriptors, each with its owning node, the environment its
  computation yields, its recursive flag, its ordering class and the metadata it asserts.
\<close>

record ref_descriptor =
  rd_owner :: node_id
  rd_target :: env_id
  rd_recursive :: bool
  rd_post :: bool
  rd_metadata :: "metadata option"

record environment =
  env_node :: node_id
  env_parent :: "env_id option"
  env_entries :: "(symbol \<times> entity) list"
  env_refs :: "ref_descriptor list"

type_synonym env_store = "environment list"

text \<open>
  Modelled from the spec: an environment value as a lookup starts from it, the
  environment with the rebindings that apply to it; the environment type is the
  library's.
\<close>

record lexical_env =
  le_env :: env_id
  le_rebindings :: "(env_id \<times> env_id) list"

text \<open>
  Modelled from the spec: the operations \<^verbatim>\<open>create(owner, parent)\<close> and
  \<^verbatim>\<open>add(env, symbol, entity)\<close> of the library's environment store, and the
  registration of a referenced environment.  An environment is identified by its
  position in the store.
\<close>

definition create :: "env_store \<Rightarrow> node_id \<Rightarrow> env_id option \<Rightarrow> env_store \<times> env_id" where
  "create st owner parent =
     (st @ [\<lparr>env_node = owner, env_parent = parent, env_entries = [], env_refs = []\<rparr>],
      length st)"

definition add :: "env_store \<Rightarrow> env_id \<Rightarrow> symbol \<Rightarrow> entity \<Rightarrow> env_store" where
  "add st env s e =
     (if env < length st
      then st[env := (st ! env)\<lparr>env_entries := env_entries (st ! env) @ [(s, e)]\<rparr>]
      else st)"

definition add_ref :: "env_store \<Rightarrow> env_id \<Rightarrow> ref_descriptor \<Rightarrow> env_store" where
  "add_ref st env d =
     (if env < length st
      then st[env := (st ! env)\<lparr>env_refs := env_refs (st ! env) @ [d]\<rparr>]
      else st)"

text \<open>
  Modelled from the spec: rebinding, part of the library.  A rebinding is the pair of a
  source and a target environment; during a traversal every environment that matches the
  source of a rebinding is replaced by its target, and the rebindings are appended to
  the chain of the entities found.  A referenced-environment edge that asserts metadata
  overrides the metadata of the entities reached through it.
\<close>

definition rebind_env :: "lexical_env \<Rightarrow> env_id \<Rightarrow> env_id \<Rightarrow> lexical_env" where
  "rebind_env le source target = le\<lparr>le_rebindings := le_rebindings le @ [(source, target)]\<rparr>"

definition rebound :: "(env_id \<times> env_id) list \<Rightarrow> env_id \<Rightarrow> env_id" where
  "rebound rebs env = foldl (\<lambda>e (source, target). if e = source then target else e) env rebs"

definition with_rebindings :: "(env_id \<times> env_id) list \<Rightarrow> entity \<Rightarrow> entity" where
  "with_rebindings rebs e =
     e\<lparr>info := (info e)\<lparr>rebindings := rebindings (info e) @ rebs\<rparr>\<rparr>"

definition with_metadata :: "metadata option \<Rightarrow> entity \<Rightarrow> entity" where
  "with_metadata m e = (case m of None \<Rightarrow> e | Some v \<Rightarrow> e\<lparr>info := (info e)\<lparr>md := v\<rparr>\<rparr>)"

text \<open>
  Modelled from the spec: deduplication by entity equality, keeping the first
  occurrence; the library function is not in the sources.
\<close>

fun dedup :: "'a list \<Rightarrow> 'a list" where
  "dedup [] = []"
| "dedup (x # xs) = x # dedup (filter (\<lambda>y. y \<noteq> x) xs)"

text \<open>
  Modelled from the spec: \<^verbatim>\<open>get(env, symbol, recursive)\<close> of the library.  It
  collects the entities stored directly under the symbol, then, if the lookup is
  recursive, the entities of the referenced environments in descriptor order and those
  of the parent chain, innermost first, and deduplicates the result.  A referenced
  environment whose pair of environment and symbol is being resolved yields no match.
  The lookup takes fuel: \<open>None\<close> is a lookup that has not returned within it.  The
  parameter \<^verbatim>\<open>sequential_from\<close> is left out.
\<close>

definition direct_entities :: "environment \<Rightarrow> symbol \<Rightarrow> entity list" where
  "direct_entities env s = map snd (filter (\<lambda>(k, e). k = s) (env_entries env))"

fun concat_options :: "'a list option list \<Rightarrow> 'a list option" where
  "concat_options [] = Some []"
| "concat_options (None # _) = None"
| "concat_options (Some xs # rest) =
     (case concat_options rest of None \<Rightarrow> None | Some ys \<Rightarrow> Some (xs @ ys))"

fun get ::
  "nat \<Rightarrow> env_store \<Rightarrow> (env_id \<times> symbol) set \<Rightarrow> lexical_env \<Rightarrow> symbol \<Rightarrow> bool
   \<Rightarrow> entity list option" where
  "get 0 st visited le s recursive = None"
| "get (Suc fuel) st visited le s recursive =
     (let env = rebound (le_rebindings le) (le_env le) in
      if \<not> env < length st then Some []
      else
        let own = map (with_rebindings (le_rebindings le)) (direct_entities (st ! env) s) in
        if \<not> recursive then Some (dedup own)
        else
          (case concat_options
                  (map (\<lambda>d.
                     if (rd_target d, s) \<in> visited then Some []
                     else map_option (map (with_metadata (rd_metadata d)))
                            (get fuel st (insert (rd_target d, s) visited)
                               (le\<lparr>le_env := rd_target d\<rparr>) s (rd_recursive d)))
                     (env_refs (st ! env))) of
             None \<Rightarrow> None
           | Some referenced \<Rightarrow>
               (case (case env_parent (st ! env) of
                        None \<Rightarrow> Some []
                      | Some p \<Rightarrow> get fuel st visited (le\<lparr>le_env := p\<rparr>) s True) of
                  None \<Rightarrow> None
                | Some outer \<Rightarrow> Some (dedup (own @ referenced @ outer)))))"

text \<open>
  A history of operations on the store, the store it builds, the histories that only
  refer to environments already created, and the entities a history adds to an
  environment under a symbol, in order.
\<close>

datatype env_op =
    Create node_id "env_id option"
  | Add env_id symbol entity
  | AddRef env_id ref_descriptor

fun apply_op :: "env_store \<Rightarrow> env_op \<Rightarrow> env_store" where
  "apply_op st (Create owner parent) = fst (create st owner parent)"
| "apply_op st (Add env s e) = add st env s e"
| "apply_op st (AddRef env d) = add_ref st env d"

definition run :: "env_op list \<Rightarrow> env_store" where
  "run ops = foldl apply_op [] ops"

fun well_formed :: "nat \<Rightarrow> env_op list \<Rightarrow> bool" where
  "well_formed n [] = True"
| "well_formed n (Create owner parent # ops) =
     ((case parent of None \<Rightarrow> True | Some p \<Rightarrow> p < n) \<and> well_formed (Suc n) ops)"
| "well_formed n (Add env s e # ops) = (env < n \<and> well_formed n ops)"
| "well_formed n (AddRef env d # ops) = (env < n \<and> well_formed n ops)"

fun added :: "env_op list \<Rightarrow> env_id \<Rightarrow> symbol \<Rightarrow> entity list" where
  "added [] env s = []"
| "added (Add env' s' e # ops) env s =
     (if env' = env \<and> s' = s then e # added ops env s else added ops env s)"
| "added (_ # ops) env s = added ops env s"

text \<open>
  \<^verbatim>\<open>GenericPackageInstantiation.defining_env\<close>.  The designated generic declaration
  \<open>p\<close> is the result of a lookup, null when nothing is found; of it the property
  reads \<^verbatim>\<open>p.children_env\<close>, the environment of the formals, and
  \<^verbatim>\<open>p.decl.children_env\<close>.  Each instantiation has its own
  \<^verbatim>\<open>instantiation_env_holder\<close>, whose environment holds the actuals.
\<close>

record generic_decl =
  gd_children_env :: env_id
  gd_decl_children_env :: env_id

record generic_package_instantiation =
  designated_generic_decl :: "generic_decl option"
  instantiation_env_holder :: env_id

definition defining_env :: "generic_package_instantiation \<Rightarrow> error + lexical_env" where
  "defining_env self =
     (case designated_generic_decl self of
        None \<Rightarrow> Inl PropertyError
      | Some p \<Rightarrow>
          (let formal_env = gd_children_env p in
           Inr (rebind_env \<lparr>le_env = gd_decl_children_env p, le_rebindings = []\<rparr>
                  formal_env (instantiation_env_holder self))))"

text \<open>The entities stored directly in an environment of the store under a symbol.\<close>

definition entities_at :: "env_store \<Rightarrow> env_id \<Rightarrow> symbol \<Rightarrow> entity list" where
  "entities_at st env s = (if env < length st then direct_entities (st ! env) s else [])"

section \<open>Example inputs\<close>




text \<open>A record type declaration (node 10) and a subtype of it (node 20).\<close>

definition ex_types :: type_table where
  "ex_types n =
     (if n = 10 then TypeDecl (RecordTypeDef False [])
      else if n = 20 then SubtypeDecl (Some \<lparr>el = Node 10, info = no_info\<rparr>)
      else EnumTypeDecl)"









text \<open>
  An integer type (node 100), a record type with components \<^verbatim>\<open>A, B : Integer\<close>
  (node 200), an array type of integers (node 300) and the operator
  \<^verbatim>\<open>"+" (Left, Right : Integer) return Integer\<close>; the sum \<^verbatim>\<open>1 + 2\<close>, and the
  associations of the aggregates \<^verbatim>\<open>(A => 1, 2)\<close> and \<^verbatim>\<open>(1)\<close>.  The type
  variable of node 10 is bound to the record type, that of node 20 to the array type.
\<close>

definition ex_Integer :: entity where
  "ex_Integer = \<lparr>el = Node 100, info = no_info\<rparr>"

definition ex_component_decl :: formal_param_decl where
  "ex_component_decl =
     \<lparr>fp_entity = \<lparr>el = Node 203, info = no_info\<rparr>, fp_kind = ComponentDecl,
      identifiers = [Identifier 201 ''a'', Identifier 202 ''b''], default_expr = None,
      fp_designated = Some ex_Integer\<rparr>"

definition ex_type_table :: type_table where
  "ex_type_table n =
     (if n = 100 then TypeDecl SignedIntTypeDef
      else if n = 200 then TypeDecl (RecordTypeDef False [FormalItem ex_component_decl])
      else if n = 300 then TypeDecl (ArrayTypeDef (ConstrainedArrayIndices [None]) (Some ex_Integer))
      else EnumTypeDecl)"

definition ex_plus :: env_element where
  "ex_plus =
     \<lparr>ee_entity = \<lparr>el = Node 50, info = no_info\<rparr>, ee_class = ''SubpDecl'',
      ee_subp_decl_spec = Some
        \<lparr>subp_params =
           [\<lparr>fp_entity = \<lparr>el = Node 51, info = no_info\<rparr>, fp_kind = ParamSpec,
             identifiers = [Identifier 52 ''left'', Identifier 53 ''right''],
             default_expr = None, fp_designated = Some ex_Integer\<rparr>],
         subp_returns = Some (Some ex_Integer)\<rparr>\<rparr>"

definition ex_ctx :: xref_context where
  "ex_ctx =
     \<lparr>ctx_types = ex_type_table,
      node_env_get = (\<lambda>n sym. if n = 3 \<and> sym = quoted ''+'' then [ex_plus] else []),
      type_val = (\<lambda>n. if n = 10 then Some \<lparr>el = Node 200, info = no_info\<rparr>
                      else if n = 20 then Some \<lparr>el = Node 300, info = no_info\<rparr> else None),
      bool_type = Some (Inr None),
      other_xref_equation = (\<lambda>n. Some (Inr NoEquation))\<rparr>"

definition ex_sum :: ada_expr where
  "ex_sum = BinOp 0 (NameExpr (IntLiteral 4 ''1'')) \<lparr>op_id = 3, op_alt = alt_plus\<rparr>
              (NameExpr (IntLiteral 5 ''2''))"

definition ex_sum_equation :: equation where
  "ex_sum_equation =
     And (And (Predicate ''is_int_type'' (TypeVar 4)) (Predicate ''is_int_type'' (TypeVar 5)))
         (Or (LogicAny
               [And (And (And (Bind (TypeVar 4) (ToValue (Some ex_Integer)) None)
                              (Bind (TypeVar 5) (ToValue (Some ex_Integer)) None))
                         (Bind (TypeVar 0) (ToValue (Some ex_Integer)) None))
                    (Bind (RefVar 3) (ToValue (Some (ee_entity ex_plus))) None)])
             (And (Bind (TypeVar 0) (ToVar (TypeVar 4)) None)
                  (Bind (TypeVar 0) (ToVar (TypeVar 5)) None)))"




text \<open>
  An environment (0) with a child (1) that references it; and a generic package with
  the environment of its formals (1) and of its declarations (2), instantiated twice,
  with the environments 3 and 4 for the actuals.
\<close>

definition ex_entity :: "nat \<Rightarrow> entity" where
  "ex_entity n = \<lparr>el = Node n, info = no_info\<rparr>"

definition ex_ops :: "env_op list" where
  "ex_ops =
     [Create 1 None, Create 2 (Some 0), Add 0 ''standard'' (ex_entity 10),
      Add 1 ''x'' (ex_entity 11), Add 0 ''x'' (ex_entity 12), Add 1 ''y'' (ex_entity 13),
      AddRef 1 \<lparr>rd_owner = 2, rd_target = 0, rd_recursive = False, rd_post = False,
                rd_metadata = None\<rparr>,
      Add 1 ''x'' (ex_entity 14)]"

definition ex_generic_ops :: "env_op list" where
  "ex_generic_ops =
     [Create 1 None, Create 2 (Some 0), Create 3 (Some 1), Create 4 (Some 0),
      Create 5 (Some 0),
      Add 1 ''t'' (ex_entity 20), Add 2 ''f'' (ex_entity 21),
      Add 3 ''t'' (ex_entity 30), Add 4 ''t'' (ex_entity 31)]"

definition ex_generic :: generic_decl where
  "ex_generic = \<lparr>gd_children_env = 1, gd_decl_children_env = 2\<rparr>"

definition ex_inst1 :: generic_package_instantiation where
  "ex_inst1 = \<lparr>designated_generic_decl = Some ex_generic, instantiation_env_holder = 3\<rparr>"

definition ex_inst2 :: generic_package_instantiation where
  "ex_inst2 = \<lparr>designated_generic_decl = Some ex_generic, instantiation_env_holder = 4\<rparr>"

section \<open>Name matching\<close>

text \<open>
  C10.  \<^verbatim>\<open>Name.matches\<close> is symmetric on every pair of name nodes, and it holds
  exactly when both nodes are identifiers with the same symbol or both are string
  literals with the same symbol; every other combination of kinds gives false.
\<close>

theorem matches_symmetric:
  "matches n1 (Some n2) = matches n2 (Some n1)
   \<and> (matches n1 (Some n2) \<longleftrightarrow>
        (\<exists>i j s. n1 = Identifier i s \<and> n2 = Identifier j s)
      \<or> (\<exists>i j s. n1 = StringLiteral i s \<and> n2 = StringLiteral j s))"
  by (cases n1; cases n2) auto

section \<open>Arity bounds\<close>

text \<open>
  C8.  For every list of formals of a subprogram specification the minimum number of
  parameters is at most the maximum number of parameters.
\<close>

theorem nb_min_le_nb_max: "nb_min_params fs \<le> nb_max_params fs"
  unfolding nb_min_params_def nb_max_params_def by simp

section \<open>Matching actuals to formals\<close>



lemma match_param_list_formal:
  assumes "m \<in> set (match_param_list fs params d)" and "has_matched m"
  shows "\<exists>f \<in> set (unpacked_formal_params fs). pm_formal m = Some f"
proof -
  from assms(1) obtain i a where
    m: "m = (case sa_name a of
           None \<Rightarrow>
             (case at (unpacked_formal_params fs) (if d then i + 1 else i) of
                None \<Rightarrow> no_param_match
              | Some sp \<Rightarrow> param_match sp a)
         | Some ident \<Rightarrow>
             (case find (\<lambda>p. matches (sf_name p) (Some ident)) (unpacked_formal_params fs) of
                None \<Rightarrow> no_param_match
              | Some sp \<Rightarrow> param_match sp a))"
    unfolding match_param_list_def Let_def by auto
  show ?thesis
  proof (cases "sa_name a")
    case None
    with m assms(2) show ?thesis
      by (auto simp: at_def no_param_match_def param_match_def split: option.splits if_splits)
  next
    case (Some ident)
    with m assms(2) show ?thesis
      by (auto simp: no_param_match_def param_match_def find_Some_iff split: option.splits)
  qed
qed



lemma filter_err_total:
  assumes "\<forall>x \<in> set xs. \<exists>b. p x = Inr b"
  shows "filter_err p xs = Inr (filter (\<lambda>x. p x = Inr True) xs)"
  using assms by (induction xs) auto


lemma is_matching_param_list_no_error:
  "is_matching_param_list fs params d \<noteq> Inl e"
proof -
  let ?ml = "match_param_list fs params d"
  show ?thesis
  proof (cases "list_all has_matched ?ml")
    case False
    then show ?thesis by (simp add: is_matching_param_list_def Let_def)
  next
    case True
    have "\<forall>m \<in> set ?ml. \<exists>b. formal_is_mandatory m = Inr b"
    proof
      fix m assume "m \<in> set ?ml"
      with True match_param_list_formal[of m fs params d]
      show "\<exists>b. formal_is_mandatory m = Inr b"
        by (auto simp: list_all_iff formal_is_mandatory_def)
    qed
    then have "filter_err formal_is_mandatory ?ml
               = Inr (filter (\<lambda>m. formal_is_mandatory m = Inr True) ?ml)"
      by (rule filter_err_total)
    then show ?thesis by (cases d) (simp_all add: is_matching_param_list_def Let_def)
  qed
qed







section \<open>Type derivation\<close>

lemma is_derived_type_refl: "is_derived_type t T (Some T) = Some (Inr True)"
  by (subst is_derived_type.simps) simp

lemma canonical_type_not_subtype:
  "(\<forall>d. decl_of t T \<noteq> SubtypeDecl d) \<Longrightarrow> canonical_type t T = Some (Inr T)"
  by (subst canonical_type.simps) (auto split: base_type_decl.splits)

lemma matching_prefix_type_canonical:
  "canonical_type t T = Some (Inr c) \<Longrightarrow> matching_prefix_type t T (Some T) = Some (Inr True)"
  by (simp add: matching_prefix_type_def bind_result_def is_derived_type_refl)

text \<open>
  C9.  \<^verbatim>\<open>is_derived_type\<close> is reflexive: \<^verbatim>\<open>T.is_derived_type(T)\<close> returns
  true for every type declaration \<open>T\<close>.  Consequently \<^verbatim>\<open>matching_prefix_type\<close>
  accepts a prefix type that is the container type itself, whenever the canonical type of
  that type is found; it always is for a declaration that is not a subtype declaration,
  as the type that declares a component is.
\<close>

theorem is_derived_type_reflexive:
  "is_derived_type t T (Some T) = Some (Inr True)
   \<and> (\<forall>c. canonical_type t T = Some (Inr c) \<longrightarrow>
         matching_prefix_type t T (Some T) = Some (Inr True))
   \<and> ((\<forall>d. decl_of t T \<noteq> SubtypeDecl d) \<longrightarrow>
         matching_prefix_type t T (Some T) = Some (Inr True))"
  using is_derived_type_refl matching_prefix_type_canonical canonical_type_not_subtype
  by blast

theorem is_derived_type_reflexive_witness:
  "decl_of ex_types \<lparr>el = Node 10, info = no_info\<rparr> = TypeDecl (RecordTypeDef False [])
   \<and> matching_prefix_type ex_types \<lparr>el = Node 10, info = no_info\<rparr>
         (Some \<lparr>el = Node 10, info = no_info\<rparr>) = Some (Inr True)
   \<and> canonical_type ex_types \<lparr>el = Node 20, info = no_info\<rparr>
         = Some (Inr \<lparr>el = Node 10, info = no_info\<rparr>)
   \<and> matching_prefix_type ex_types \<lparr>el = Node 20, info = no_info\<rparr>
         (Some \<lparr>el = Node 20, info = no_info\<rparr>) = Some (Inr True)"
proof -
  have d: "decl_of ex_types \<lparr>el = Node 10, info = no_info\<rparr> = TypeDecl (RecordTypeDef False [])"
    by (simp add: decl_of_def ex_types_def)
  then have n: "\<forall>d. decl_of ex_types \<lparr>el = Node 10, info = no_info\<rparr> \<noteq> SubtypeDecl d"
    by simp
  have c1: "canonical_type ex_types \<lparr>el = Node 10, info = no_info\<rparr>
         = Some (Inr \<lparr>el = Node 10, info = no_info\<rparr>)"
    by (subst canonical_type.simps) (simp add: d)
  have c: "canonical_type ex_types \<lparr>el = Node 20, info = no_info\<rparr>
         = Some (Inr \<lparr>el = Node 10, info = no_info\<rparr>)"
    by (subst canonical_type.simps) (simp add: decl_of_def ex_types_def c1)
  show ?thesis
    using d c n is_derived_type_reflexive[of ex_types "\<lparr>el = Node 10, info = no_info\<rparr>"]
      is_derived_type_reflexive[of ex_types "\<lparr>el = Node 20, info = no_info\<rparr>"]
    by blast
qed

section \<open>Entry points and the driver\<close>

lemmas class_eval = superclass_def class_table_def lookup_class.simps list.inject list.distinct
  char.inject if_False if_True simp_thms












lemmas mro_eval = mro_def class_eval ancestors.simps option.case







section \<open>Equations of binary operators and aggregates\<close>

lemma bind_result_Inr_iff:
  "bind_result r f = Some (Inr y) \<longleftrightarrow> (\<exists>x. r = Some (Inr x) \<and> f x = Some (Inr y))"
  by (auto simp: bind_result_def split: option.splits sum.splits)

lemma map_result_Inr_iff:
  "map_result f xs = Some (Inr ys)
   \<longleftrightarrow> length ys = length xs \<and> (\<forall>i < length xs. f (xs ! i) = Some (Inr (ys ! i)))"
proof (induction xs arbitrary: ys)
  case Nil
  then show ?case by auto
next
  case (Cons x xs)
  show ?case
  proof
    assume "map_result f (x # xs) = Some (Inr ys)"
    then obtain y ys' where y: "f x = Some (Inr y)" and ys': "map_result f xs = Some (Inr ys')"
      and ys: "ys = y # ys'"
      by (auto simp: bind_result_Inr_iff)
    from ys' Cons.IH[of ys'] have
      "length ys' = length xs" "\<forall>i < length xs. f (xs ! i) = Some (Inr (ys' ! i))"
      by auto
    with y ys show "length ys = length (x # xs)
      \<and> (\<forall>i < length (x # xs). f ((x # xs) ! i) = Some (Inr (ys ! i)))"
      by (auto simp: nth_Cons split: nat.splits)
  next
    assume a: "length ys = length (x # xs)
      \<and> (\<forall>i < length (x # xs). f ((x # xs) ! i) = Some (Inr (ys ! i)))"
    then obtain y ys' where ys: "ys = y # ys'" by (cases ys) auto
    with a have y: "f x = Some (Inr y)" by auto
    from a ys have "length ys' = length xs" by simp
    moreover from a ys have "\<forall>i < length xs. f (xs ! i) = Some (Inr (ys' ! i))"
      by (metis Suc_less_eq length_Cons nth_Cons_Suc)
    ultimately have "map_result f xs = Some (Inr ys')" using Cons.IH[of ys'] by simp
    with y ys show "map_result f (x # xs) = Some (Inr ys)"
      by (simp add: bind_result_def)
  qed
qed

lemma map_result_total:
  assumes "\<forall>x \<in> set xs. \<exists>y. f x = Some (Inr y)"
  shows "\<exists>ys. map_result f xs = Some (Inr ys)"
  using assms
proof (induction xs)
  case Nil
  then show ?case by simp
next
  case (Cons x xs)
  then obtain y ys where "f x = Some (Inr y)" "map_result f xs = Some (Inr ys)"
    by auto
  then show ?case by (simp add: bind_result_def)
qed

lemma names_map_basic_assoc [simp]: "names (map_basic_assoc g a) = names a"
  by (cases a) auto

lemma expr_map_basic_assoc [simp]: "expr (map_basic_assoc g a) = g (expr a)"
  by (cases a) auto



lemma overload_equation_Inr_iff:
  "overload_equation t self left right op_ref subp = Some (Inr b)
   \<longleftrightarrow> (\<exists>spec f0 f1 t0 t1 rt.
        ee_subp_decl_spec subp = Some spec
      \<and> at (unpacked_formal_params (subp_params spec)) 0 = Some f0
      \<and> at (unpacked_formal_params (subp_params spec)) 1 = Some f1
      \<and> formal_type t (Some f0) = Some (Inr t0)
      \<and> formal_type t (Some f1) = Some (Inr t1)
      \<and> subp_returns spec = Some rt
      \<and> b = And (And (And (Bind (TypeVar left) (ToValue (Some t0)) None)
                          (Bind (TypeVar right) (ToValue (Some t1)) None))
                     (Bind (TypeVar self) (ToValue rt) None))
                (Bind (RefVar op_ref) (ToValue (Some (ee_entity subp))) None))"
proof (cases "ee_subp_decl_spec subp")
  case None
  then show ?thesis by (simp add: overload_equation_def)
next
  case (Some spec)
  have ft: "\<And>x ty. formal_type t x = Some (Inr ty) \<longleftrightarrow> (\<exists>f. x = Some f \<and> formal_type t (Some f) = Some (Inr ty))"
    by (case_tac x) (auto simp: formal_type_def)
  show ?thesis
    unfolding overload_equation_def Some Let_def option.case bind_result_Inr_iff
      returns_designated_type_def
    apply (subst ft[of "at (unpacked_formal_params (subp_params spec)) 0"])
    apply (subst ft[of "at (unpacked_formal_params (subp_params spec)) 1"])
    by (auto split: option.splits)
qed

lemma BinOp_xref_equation_Inr_iff:
  "BinOp_xref_equation ctx relation self left op_n right = Some (Inr eq)
   \<longleftrightarrow> (\<exists>le re bs no.
         snd left = Some (Inr le) \<and> snd right = Some (Inr re)
       \<and> no_overload_equation ctx relation self (fst left) (fst right) = Some (Inr no)
       \<and> eq = And (And le re) (Or (LogicAny bs) no)
       \<and> length bs = length (subprograms ctx op_n)
       \<and> (\<forall>i < length (subprograms ctx op_n).
             overload_branch (ctx_types ctx) self (fst left) (fst right) (op_id op_n)
               (subprograms ctx op_n ! i) (bs ! i)))"
  unfolding BinOp_xref_equation_def Let_def bind_result_Inr_iff map_result_Inr_iff
    overload_equation_Inr_iff overload_branch_def
  by auto

text \<open>
  C1 (as amended).  Whenever the equation of a binary operator node is built, it is
  the conjunction of the sub-equations of the two operands with a disjunction of
  \<^verbatim>\<open>logic_any\<close> over the overloads \<^verbatim>\<open>Op.subprograms\<close> returns, one branch
  per overload and in their order, and the fallback \<^verbatim>\<open>no_overload_equation\<close>;
  the branch of an overload binds the type variable of the left operand to the type of
  its first formal, that of the right operand to the type of its second formal, the type
  variable of the node to its return type and the reference variable of the operator to
  the overload.  The equation is built whenever the sub-equations of the operands and
  the fallback are, and every overload has two formals whose types are found and a
  return type.
\<close>

theorem BinOp_xref_equation_overloads:
  assumes "e = BinOp n l op_n r \<and> \<not> relation \<or> e = RelationOp n l op_n r \<and> relation"
  shows "(xref_equation ctx e = Some (Inr eq) \<longrightarrow>
           (\<exists>le re bs no.
              sub_equation ctx l = Some (Inr le) \<and> sub_equation ctx r = Some (Inr re)
            \<and> no_overload_equation ctx relation n (expr_id l) (expr_id r) = Some (Inr no)
            \<and> eq = And (And le re) (Or (LogicAny bs) no)
            \<and> length bs = length (subprograms ctx op_n)
            \<and> (\<forall>i < length (subprograms ctx op_n).
                  overload_branch (ctx_types ctx) n (expr_id l) (expr_id r) (op_id op_n)
                    (subprograms ctx op_n ! i) (bs ! i))))
       \<and> ((\<exists>le. sub_equation ctx l = Some (Inr le)) \<and> (\<exists>re. sub_equation ctx r = Some (Inr re))
          \<and> (\<exists>no. no_overload_equation ctx relation n (expr_id l) (expr_id r) = Some (Inr no))
          \<and> (\<forall>subp \<in> set (subprograms ctx op_n).
                \<exists>b. overload_branch (ctx_types ctx) n (expr_id l) (expr_id r) (op_id op_n) subp b)
          \<longrightarrow> (\<exists>eq'. xref_equation ctx e = Some (Inr eq')))"
proof -
  have x: "xref_equation ctx e =
      BinOp_xref_equation ctx relation n (expr_id l, sub_equation ctx l) op_n
        (expr_id r, sub_equation ctx r)"
    using assms by auto
  have 1: "xref_equation ctx e = Some (Inr eq) \<longrightarrow>
           (\<exists>le re bs no.
              sub_equation ctx l = Some (Inr le) \<and> sub_equation ctx r = Some (Inr re)
            \<and> no_overload_equation ctx relation n (expr_id l) (expr_id r) = Some (Inr no)
            \<and> eq = And (And le re) (Or (LogicAny bs) no)
            \<and> length bs = length (subprograms ctx op_n)
            \<and> (\<forall>i < length (subprograms ctx op_n).
                  overload_branch (ctx_types ctx) n (expr_id l) (expr_id r) (op_id op_n)
                    (subprograms ctx op_n ! i) (bs ! i)))"
    unfolding x BinOp_xref_equation_Inr_iff by simp
  have 2: "(\<exists>le. sub_equation ctx l = Some (Inr le)) \<and> (\<exists>re. sub_equation ctx r = Some (Inr re))
          \<and> (\<exists>no. no_overload_equation ctx relation n (expr_id l) (expr_id r) = Some (Inr no))
          \<and> (\<forall>subp \<in> set (subprograms ctx op_n).
                \<exists>b. overload_branch (ctx_types ctx) n (expr_id l) (expr_id r) (op_id op_n) subp b)
          \<longrightarrow> (\<exists>eq'. xref_equation ctx e = Some (Inr eq'))"
  proof
    assume h: "(\<exists>le. sub_equation ctx l = Some (Inr le)) \<and> (\<exists>re. sub_equation ctx r = Some (Inr re))
          \<and> (\<exists>no. no_overload_equation ctx relation n (expr_id l) (expr_id r) = Some (Inr no))
          \<and> (\<forall>subp \<in> set (subprograms ctx op_n).
                \<exists>b. overload_branch (ctx_types ctx) n (expr_id l) (expr_id r) (op_id op_n) subp b)"
    then obtain le re no where
      s: "sub_equation ctx l = Some (Inr le)" "sub_equation ctx r = Some (Inr re)"
         "no_overload_equation ctx relation n (expr_id l) (expr_id r) = Some (Inr no)"
      by blast
    from h have "\<forall>subp \<in> set (subprograms ctx op_n).
        \<exists>b. overload_equation (ctx_types ctx) n (expr_id l) (expr_id r) (op_id op_n) subp
               = Some (Inr b)"
      unfolding overload_equation_Inr_iff overload_branch_def by blast
    from map_result_total[OF this] obtain bs where
      "map_result (overload_equation (ctx_types ctx) n (expr_id l) (expr_id r) (op_id op_n))
         (subprograms ctx op_n) = Some (Inr bs)"
      by blast
    with s show "\<exists>eq'. xref_equation ctx e = Some (Inr eq')"
      unfolding x BinOp_xref_equation_def Let_def by (simp add: bind_result_def)
  qed
  from 1 2 show ?thesis by (rule conjI)
qed







lemma mro_SubpDecl:
  "mro ''SubpDecl''
   = [''SubpDecl'', ''ClassicSubpDecl'', ''BasicSubpDecl'', ''BasicDecl'', ''AdaNode'']"
  by (simp only: mro_eval)

lemma ex_canonical_Integer: "canonical_type ex_type_table ex_Integer = Some (Inr ex_Integer)"
  by (subst canonical_type.simps) (simp add: decl_of_def ex_type_table_def ex_Integer_def)

lemma ex_subprograms: "subprograms ex_ctx \<lparr>op_id = 3, op_alt = alt_plus\<rparr> = [ex_plus]"
  by (simp add: subprograms_def ex_ctx_def is_a_def ex_plus_def mro_SubpDecl)

text \<open>The sum \<^verbatim>\<open>1 + 2\<close> with one visible overload of \<^verbatim>\<open>"+"\<close>.\<close>

theorem BinOp_xref_equation_overloads_witness:
  "xref_equation ex_ctx ex_sum =
     Some (Inr
       (And (And (Predicate ''is_int_type'' (TypeVar 4)) (Predicate ''is_int_type'' (TypeVar 5)))
            (Or (LogicAny
                  [And (And (And (Bind (TypeVar 4) (ToValue (Some ex_Integer)) None)
                                 (Bind (TypeVar 5) (ToValue (Some ex_Integer)) None))
                            (Bind (TypeVar 0) (ToValue (Some ex_Integer)) None))
                       (Bind (RefVar 3) (ToValue (Some (ee_entity ex_plus))) None)])
                (And (Bind (TypeVar 0) (ToVar (TypeVar 4)) None)
                     (Bind (TypeVar 0) (ToVar (TypeVar 5)) None)))))
   \<and> length (subprograms ex_ctx \<lparr>op_id = 3, op_alt = alt_plus\<rparr>) = 1"
proof -
  have e: "ex_sum = BinOp 0 (NameExpr (IntLiteral 4 ''1'')) \<lparr>op_id = 3, op_alt = alt_plus\<rparr>
              (NameExpr (IntLiteral 5 ''2'')) \<and> \<not> False
        \<or> ex_sum = RelationOp 0 (NameExpr (IntLiteral 4 ''1'')) \<lparr>op_id = 3, op_alt = alt_plus\<rparr>
              (NameExpr (IntLiteral 5 ''2'')) \<and> False"
    by (simp add: ex_sum_def)
  have ct: "ctx_types ex_ctx = ex_type_table" by (simp add: ex_ctx_def)
  have ob: "overload_branch (ctx_types ex_ctx) 0 4 5 3 ex_plus
     (And (And (And (Bind (TypeVar 4) (ToValue (Some ex_Integer)) None)
                                 (Bind (TypeVar 5) (ToValue (Some ex_Integer)) None))
                            (Bind (TypeVar 0) (ToValue (Some ex_Integer)) None))
                       (Bind (RefVar 3) (ToValue (Some (ee_entity ex_plus))) None))"
    unfolding overload_branch_def ct
    by (simp add: ex_plus_def unpacked_formal_params_def at_def formal_type_def
        type_expression_designated_type_def ex_canonical_Integer)
  have pre: "(\<exists>le. sub_equation ex_ctx (NameExpr (IntLiteral 4 ''1'')) = Some (Inr le))
     \<and> (\<exists>re. sub_equation ex_ctx (NameExpr (IntLiteral 5 ''2'')) = Some (Inr re))
     \<and> (\<exists>no. no_overload_equation ex_ctx False 0 (expr_id (NameExpr (IntLiteral 4 ''1'')))
            (expr_id (NameExpr (IntLiteral 5 ''2''))) = Some (Inr no))
     \<and> (\<forall>subp \<in> set (subprograms ex_ctx \<lparr>op_id = 3, op_alt = alt_plus\<rparr>).
          \<exists>b. overload_branch (ctx_types ex_ctx) 0 (expr_id (NameExpr (IntLiteral 4 ''1'')))
            (expr_id (NameExpr (IntLiteral 5 ''2''))) (op_id \<lparr>op_id = 3, op_alt = alt_plus\<rparr>)
            subp b)"
    using ob by (auto simp: sub_equation.simps no_overload_equation_def ex_subprograms)
  from BinOp_xref_equation_overloads[OF e, of ex_ctx] pre
  obtain eq' where eq': "xref_equation ex_ctx ex_sum = Some (Inr eq')"
    by blast
  from BinOp_xref_equation_overloads[OF e, of ex_ctx eq'] eq'
  obtain bs where bs: "eq' = And (And (Predicate ''is_int_type'' (TypeVar 4))
           (Predicate ''is_int_type'' (TypeVar 5)))
        (Or (LogicAny bs) (And (Bind (TypeVar 0) (ToVar (TypeVar 4)) None)
                     (Bind (TypeVar 0) (ToVar (TypeVar 5)) None)))"
    "length bs = 1" "overload_branch (ctx_types ex_ctx) 0 4 5 3 ex_plus (bs ! 0)"
    by (auto simp: sub_equation.simps no_overload_equation_def ex_subprograms)
  from bs(3) ob have "bs ! 0 = And (And (And (Bind (TypeVar 4) (ToValue (Some ex_Integer)) None)
                                 (Bind (TypeVar 5) (ToValue (Some ex_Integer)) None))
                            (Bind (TypeVar 0) (ToValue (Some ex_Integer)) None))
                       (Bind (RefVar 3) (ToValue (Some (ee_entity ex_plus))) None)"
    unfolding overload_branch_def by auto
  with bs(2) have "bs = [And (And (And (Bind (TypeVar 4) (ToValue (Some ex_Integer)) None)
                                 (Bind (TypeVar 5) (ToValue (Some ex_Integer)) None))
                            (Bind (TypeVar 0) (ToValue (Some ex_Integer)) None))
                       (Bind (RefVar 3) (ToValue (Some (ee_entity ex_plus))) None)]"
    by (cases bs) auto
  with eq' bs(1) show ?thesis by (simp add: ex_subprograms)
qed

text \<open>
  The equation of \<^verbatim>\<open>1 + 2\<close> is a conjunction: of the sub-equations of the two
  literals, and of the disjunction over the overloads and the fallback.
\<close>

theorem BinOp_xref_equation_counterexample:
  "xref_equation ex_ctx ex_sum = Some (Inr ex_sum_equation)
   \<and> \<not> is_disjunction ex_sum_equation"
proof -
  have ct: "ctx_types ex_ctx = ex_type_table" by (simp add: ex_ctx_def)
  have ov: "overload_equation ex_type_table 0 4 5 3 ex_plus =
     Some (Inr (And (And (And (Bind (TypeVar 4) (ToValue (Some ex_Integer)) None)
                              (Bind (TypeVar 5) (ToValue (Some ex_Integer)) None))
                         (Bind (TypeVar 0) (ToValue (Some ex_Integer)) None))
                    (Bind (RefVar 3) (ToValue (Some (ee_entity ex_plus))) None)))"
    by (simp add: overload_equation_def ex_plus_def unpacked_formal_params_def at_def
        formal_type_def type_expression_designated_type_def ex_canonical_Integer
        returns_designated_type_def bind_result_def)
  have "xref_equation ex_ctx ex_sum = Some (Inr ex_sum_equation)"
    by (simp add: ex_sum_def BinOp_xref_equation_def sub_equation.simps ex_subprograms ct ov
        no_overload_equation_def bind_result_def ex_sum_equation_def)
  then show ?thesis by (simp add: ex_sum_equation_def)
qed





text \<open>No branch is built for an overload with fewer than two formals.\<close>

lemma overload_with_one_formal_not_built:
  assumes "ee_subp_decl_spec subp = Some spec"
    and "length (unpacked_formal_params (subp_params spec)) < 2"
  shows "overload_equation t self left right op_ref subp \<noteq> Some (Inr b)"
  using assms unfolding overload_equation_Inr_iff by (auto simp: at_def)

section \<open>Lookups in lexical environments\<close>

lemma set_dedup [simp]: "set (dedup xs) = set xs"
  by (induction xs rule: dedup.induct) auto

lemma dedup_distinct: "distinct xs \<Longrightarrow> dedup xs = xs"
proof (induction xs)
  case Nil
  then show ?case by simp
next
  case (Cons x xs)
  then have "filter (\<lambda>y. y \<noteq> x) xs = xs" by (auto simp: filter_id_conv)
  with Cons show ?case by simp
qed

lemma dedup_map_inj:
  assumes "inj f"
  shows "dedup (map f xs) = map f (dedup xs)"
proof (induction xs rule: dedup.induct)
  case 1
  then show ?case by simp
next
  case (2 x xs)
  have "filter (\<lambda>y. y \<noteq> f x) (map f xs) = map f (filter (\<lambda>y. y \<noteq> x) xs)"
    using assms by (induction xs) (auto dest: injD)
  with 2 show ?case by simp
qed

lemma with_rebindings_Nil [simp]: "with_rebindings [] e = e"
  by (simp add: with_rebindings_def)

lemma map_with_rebindings_Nil [simp]: "map (with_rebindings []) xs = xs"
  by (induction xs) auto

lemma inj_with_rebindings: "inj (with_rebindings rebs)"
proof (rule injI)
  fix x y :: entity
  assume h: "with_rebindings rebs x = with_rebindings rebs y"
  then have "el x = el y" "md (info x) = md (info y)"
    "rebindings (info x) @ rebs = rebindings (info y) @ rebs"
    unfolding with_rebindings_def
    by (metis entity.select_convs(1) entity.surjective entity.update_convs(2),
        metis entity.select_convs(2) entity.surjective entity.update_convs(2)
          entity_info.select_convs(1) entity_info.surjective entity_info.update_convs(2),
        metis entity.select_convs(2) entity.surjective entity.update_convs(2)
          entity_info.select_convs(2) entity_info.surjective entity_info.update_convs(2))
  then show "x = y" by (simp add: entity.equality entity_info.equality)
qed

lemma entities_at_apply_op:
  assumes "well_formed (length st) (op # ops)"
  shows "entities_at (apply_op st op) env s = entities_at st env s @ added [op] env s"
    and "well_formed (length (apply_op st op)) ops"
proof -
  show "entities_at (apply_op st op) env s = entities_at st env s @ added [op] env s"
  proof (cases op)
    case (Create owner parent)
    then show ?thesis
      by (auto simp: entities_at_def create_def nth_append direct_entities_def)
  next
    case (Add env' s' e)
    with assms have "env' < length st" by simp
    with Add show ?thesis
      by (auto simp: entities_at_def add_def direct_entities_def nth_list_update)
  next
    case (AddRef env' d)
    with assms have "env' < length st" by simp
    with AddRef show ?thesis
      by (auto simp: entities_at_def add_ref_def direct_entities_def nth_list_update)
  qed
  show "well_formed (length (apply_op st op)) ops"
    using assms by (cases op) (auto simp: create_def add_def add_ref_def)
qed

lemma added_Cons: "added (op # ops) env s = added [op] env s @ added ops env s"
  by (cases op) auto

lemma entities_at_foldl:
  "well_formed (length st) ops \<Longrightarrow>
   entities_at (foldl apply_op st ops) env s = entities_at st env s @ added ops env s"
proof (induction ops arbitrary: st)
  case Nil
  then show ?case by simp
next
  case (Cons op ops)
  from entities_at_apply_op[OF Cons.prems]
  have 1: "entities_at (apply_op st op) env s = entities_at st env s @ added [op] env s"
    and 2: "well_formed (length (apply_op st op)) ops"
    by blast+
  from Cons.IH[OF 2] 1
  have "entities_at (foldl apply_op (apply_op st op) ops) env s
        = (entities_at st env s @ added [op] env s) @ added ops env s"
    by simp
  then show ?case
    by (simp only: foldl_Cons added_Cons[of op ops] append_assoc)
qed

lemma get_non_recursive_entities_at:
  "get (Suc fuel) st visited \<lparr>le_env = env, le_rebindings = []\<rparr> s False
   = Some (dedup (entities_at st env s))"
  by (simp add: rebound_def Let_def entities_at_def)

lemma get_non_recursive:
  assumes "well_formed 0 ops"
  shows "get (Suc fuel) (run ops) visited \<lparr>le_env = env, le_rebindings = []\<rparr> s False
         = Some (dedup (added ops env s))"
proof -
  from entities_at_foldl[of "[]" ops env s] assms
  have "entities_at (run ops) env s = added ops env s"
    by (simp add: run_def entities_at_def)
  then show ?thesis
    by (simp only: get_non_recursive_entities_at)
qed

text \<open>
  C7.  In a store built by any history of operations, a non-recursive lookup of a symbol
  in an environment returns the entities the history added directly to that environment
  under that symbol, in insertion order and each once; it returns exactly that list when
  no entity was added twice.  The result is the same for every history that adds the
  same entities there, whatever it adds to other environments, parents and referenced
  environments included.
\<close>

theorem get_non_recursive_exact:
  assumes "well_formed 0 ops"
  shows "get (Suc fuel) (run ops) visited \<lparr>le_env = env, le_rebindings = []\<rparr> s False
           = Some (dedup (added ops env s))
       \<and> (distinct (added ops env s) \<longrightarrow>
            get (Suc fuel) (run ops) visited \<lparr>le_env = env, le_rebindings = []\<rparr> s False
              = Some (added ops env s))
       \<and> (well_formed 0 ops' \<and> added ops' env s = added ops env s \<longrightarrow>
            get (Suc fuel') (run ops') visited' \<lparr>le_env = env, le_rebindings = []\<rparr> s False
              = get (Suc fuel) (run ops) visited \<lparr>le_env = env, le_rebindings = []\<rparr> s False)"
  using get_non_recursive[OF assms] get_non_recursive[of ops'] dedup_distinct
  by (metis (no_types, lifting))

text \<open>
  The child environment holds two entities under \<^verbatim>\<open>x\<close>, its parent a third one,
  which only the recursive lookup finds.
\<close>

theorem get_non_recursive_exact_witness:
  "get 1 (run ex_ops) {} \<lparr>le_env = 1, le_rebindings = []\<rparr> ''x'' False
     = Some [ex_entity 11, ex_entity 14]
   \<and> get 1 (run ex_ops) {} \<lparr>le_env = 0, le_rebindings = []\<rparr> ''x'' False = Some [ex_entity 12]
   \<and> get 2 (run ex_ops) {} \<lparr>le_env = 1, le_rebindings = []\<rparr> ''x'' True
     = Some [ex_entity 11, ex_entity 14, ex_entity 12]"
proof -
  have wf: "well_formed 0 ex_ops" by (simp add: ex_ops_def)
  have a: "added ex_ops 1 ''x'' = [ex_entity 11, ex_entity 14]"
    "added ex_ops 0 ''x'' = [ex_entity 12]"
    by (simp_all add: ex_ops_def)
  have d: "distinct (added ex_ops 1 ''x'')" "distinct (added ex_ops 0 ''x'')"
    unfolding a by (simp_all add: ex_entity_def)
  have 1: "get 1 (run ex_ops) {} \<lparr>le_env = 1, le_rebindings = []\<rparr> ''x'' False
     = Some [ex_entity 11, ex_entity 14]"
    using get_non_recursive_exact[OF wf, of 0 "{}" 1 "''x''"] d(1) a(1) by simp
  have 2: "get 1 (run ex_ops) {} \<lparr>le_env = 0, le_rebindings = []\<rparr> ''x'' False
     = Some [ex_entity 12]"
    using get_non_recursive_exact[OF wf, of 0 "{}" 0 "''x''"] d(2) a(2) by simp
  have 3: "get 2 (run ex_ops) {} \<lparr>le_env = 1, le_rebindings = []\<rparr> ''x'' True
     = Some [ex_entity 11, ex_entity 14, ex_entity 12]"
    by (simp add: ex_ops_def run_def create_def add_def add_ref_def rebound_def
        direct_entities_def ex_entity_def with_metadata_def numeral_2_eq_2)
  from 1 2 3 show ?thesis by simp
qed

lemma concat_options_member:
  "concat_options xs = Some ys \<Longrightarrow> y \<in> set ys \<Longrightarrow> \<exists>zs. Some zs \<in> set xs \<and> y \<in> set zs"
proof (induction xs arbitrary: ys rule: concat_options.induct)
  case 1
  then show ?case by simp
next
  case (2 uu)
  then show ?case by simp
next
  case (3 zs rest)
  then obtain ys' where ys': "concat_options rest = Some ys'" "ys = zs @ ys'"
    by (auto split: option.splits)
  with 3 show ?case by auto
qed

lemma rebindings_with_metadata [simp]:
  "rebindings (info (with_metadata m e)) = rebindings (info e)"
  by (cases m) (auto simp: with_metadata_def)

lemma rebindings_with_rebindings [simp]:
  "rebindings (info (with_rebindings rebs e)) = rebindings (info e) @ rebs"
  by (simp add: with_rebindings_def)

lemma get_rebindings_suffix:
  "get fuel st visited le s recursive = Some res \<Longrightarrow> e \<in> set res
   \<Longrightarrow> \<exists>pre. rebindings (info e) = pre @ le_rebindings le"
proof (induction fuel arbitrary: visited le recursive res e)
  case 0
  then show ?case by simp
next
  case (Suc fuel)
  let ?env = "rebound (le_rebindings le) (le_env le)"
  let ?own = "map (with_rebindings (le_rebindings le)) (direct_entities (st ! ?env) s)"
  have own: "\<And>x. x \<in> set ?own \<Longrightarrow> \<exists>pre. rebindings (info x) = pre @ le_rebindings le"
    by auto
  show ?case
  proof (cases "?env < length st")
    case False
    with Suc.prems show ?thesis by (simp add: Let_def)
  next
    case lt: True
    show ?thesis
    proof (cases recursive)
      case False
      with lt Suc.prems(1) have "res = dedup ?own" by (simp add: Let_def)
      with Suc.prems(2) have "e \<in> set ?own" by (simp only: set_dedup)
      then show ?thesis by (rule own)
    next
      case True
      let ?refs = "map (\<lambda>d.
                     if (rd_target d, s) \<in> visited then Some []
                     else map_option (map (with_metadata (rd_metadata d)))
                            (get fuel st (insert (rd_target d, s) visited)
                               (le\<lparr>le_env := rd_target d\<rparr>) s (rd_recursive d)))
                     (env_refs (st ! ?env))"
      let ?outer = "case env_parent (st ! ?env) of
                        None \<Rightarrow> Some []
                      | Some p \<Rightarrow> get fuel st visited (le\<lparr>le_env := p\<rparr>) s True"
      from Suc.prems(1) lt True obtain referenced outer where
        r: "concat_options ?refs = Some referenced" and o: "?outer = Some outer"
        and res: "res = dedup (?own @ referenced @ outer)"
        by (auto simp: Let_def split: option.splits)
      from Suc.prems(2) res have "e \<in> set ?own \<or> e \<in> set referenced \<or> e \<in> set outer"
        by auto
      then show ?thesis
      proof (elim disjE)
        assume "e \<in> set ?own"
        then show ?thesis by (rule own)
      next
        assume "e \<in> set referenced"
        with concat_options_member[OF r] obtain zs where
          zs: "Some zs \<in> set ?refs" "e \<in> set zs" by blast
        then obtain d where d: "d \<in> set (env_refs (st ! ?env))"
          "Some zs = (if (rd_target d, s) \<in> visited then Some []
                     else map_option (map (with_metadata (rd_metadata d)))
                            (get fuel st (insert (rd_target d, s) visited)
                               (le\<lparr>le_env := rd_target d\<rparr>) s (rd_recursive d)))"
          by auto
        have nv: "(rd_target d, s) \<notin> visited"
        proof
          assume "(rd_target d, s) \<in> visited"
          with d(2) have "zs = []" by simp
          with zs(2) show False by simp
        qed
        with d(2) have m: "map_option (map (with_metadata (rd_metadata d)))
                            (get fuel st (insert (rd_target d, s) visited)
                               (le\<lparr>le_env := rd_target d\<rparr>) s (rd_recursive d)) = Some zs"
          by simp
        then obtain ws where
          ws1: "get fuel st (insert (rd_target d, s) visited)
                 (le\<lparr>le_env := rd_target d\<rparr>) s (rd_recursive d) = Some ws"
          and zsw: "zs = map (with_metadata (rd_metadata d)) ws"
          by (cases "get fuel st (insert (rd_target d, s) visited)
                 (le\<lparr>le_env := rd_target d\<rparr>) s (rd_recursive d)") auto
        from zs(2) zsw obtain e' where "e' \<in> set ws" "e = with_metadata (rd_metadata d) e'"
          by auto
        with ws1 have
          ws: "get fuel st (insert (rd_target d, s) visited)
                 (le\<lparr>le_env := rd_target d\<rparr>) s (rd_recursive d) = Some ws"
            "e' \<in> set ws" "e = with_metadata (rd_metadata d) e'"
          by simp_all
        from Suc.IH[OF ws(1) ws(2)] ws(3) show ?thesis by simp
      next
        assume eo: "e \<in> set outer"
        show ?thesis
        proof (cases "env_parent (st ! ?env)")
          case None
          with o eo show ?thesis by simp
        next
          case (Some p)
          with o have "get fuel st visited (le\<lparr>le_env := p\<rparr>) s True = Some outer" by simp
          from Suc.IH[OF this eo] show ?thesis by simp
        qed
      qed
    qed
  qed
qed

lemma get_non_recursive_rebound:
  assumes "rebound rebs env = env"
  shows "get (Suc fuel) st visited \<lparr>le_env = env, le_rebindings = rebs\<rparr> s False
         = Some (map (with_rebindings rebs) (dedup (entities_at st env s)))"
  using assms
  by (simp add: Let_def entities_at_def dedup_map_inj[OF inj_with_rebindings])

text \<open>
  C6.  Two instantiations of the same generic package have defining environments that
  differ in their rebinding only.  No entity found through the one equals an entity
  found through the other; a non-recursive lookup of a symbol through each returns the
  same declarations of the generic package, with the same nodes and metadata, and with
  the rebinding of the instantiation on their chains.  Two entities are equal exactly
  when their node, their metadata and their rebinding chain are.
\<close>

theorem instantiations_yield_distinct_entities:
  assumes "designated_generic_decl i1 = Some p" and "designated_generic_decl i2 = Some p"
    and "instantiation_env_holder i1 \<noteq> instantiation_env_holder i2"
  shows "\<exists>d1 d2. defining_env i1 = Inr d1 \<and> defining_env i2 = Inr d2
     \<and> (get fuel1 st visited1 d1 s1 recursive1 = Some r1
        \<and> get fuel2 st visited2 d2 s2 recursive2 = Some r2
        \<longrightarrow> (\<forall>e1 \<in> set r1. \<forall>e2 \<in> set r2. e1 \<noteq> e2))
     \<and> (gd_decl_children_env p \<noteq> gd_children_env p \<longrightarrow>
          (\<exists>found.
             get (Suc fuel1) st visited1 d1 s False
               = Some (map (with_rebindings
                   [(gd_children_env p, instantiation_env_holder i1)]) found)
           \<and> get (Suc fuel2) st visited2 d2 s False
               = Some (map (with_rebindings
                   [(gd_children_env p, instantiation_env_holder i2)]) found)
           \<and> found = dedup (entities_at st (gd_decl_children_env p) s)))
     \<and> (((e1::entity) = e2) \<longleftrightarrow>
          el e1 = el e2 \<and> md (info e1) = md (info e2)
          \<and> rebindings (info e1) = rebindings (info e2))"
proof -
  let ?F = "gd_children_env p"
  let ?D = "gd_decl_children_env p"
  let ?d1 = "\<lparr>le_env = ?D, le_rebindings = [(?F, instantiation_env_holder i1)]\<rparr>"
  let ?d2 = "\<lparr>le_env = ?D, le_rebindings = [(?F, instantiation_env_holder i2)]\<rparr>"
  have d1: "defining_env i1 = Inr ?d1" and d2: "defining_env i2 = Inr ?d2"
    using assms by (simp_all add: defining_env_def rebind_env_def)
  have a: "get fuel1 st visited1 ?d1 s1 recursive1 = Some r1
        \<and> get fuel2 st visited2 ?d2 s2 recursive2 = Some r2
        \<longrightarrow> (\<forall>e1 \<in> set r1. \<forall>e2 \<in> set r2. e1 \<noteq> e2)"
  proof (intro impI ballI)
    fix x y
    assume g: "get fuel1 st visited1 ?d1 s1 recursive1 = Some r1
        \<and> get fuel2 st visited2 ?d2 s2 recursive2 = Some r2"
      and x: "x \<in> set r1" and y: "y \<in> set r2"
    from get_rebindings_suffix[of fuel1 st visited1 ?d1 s1 recursive1 r1 x] g x
    obtain pre1 where "rebindings (info x) = pre1 @ [(?F, instantiation_env_holder i1)]"
      by auto
    moreover from get_rebindings_suffix[of fuel2 st visited2 ?d2 s2 recursive2 r2 y] g y
    obtain pre2 where "rebindings (info y) = pre2 @ [(?F, instantiation_env_holder i2)]"
      by auto
    ultimately show "x \<noteq> y" using assms(3) by auto
  qed
  have b: "?D \<noteq> ?F \<longrightarrow>
          (\<exists>found.
             get (Suc fuel1) st visited1 ?d1 s False
               = Some (map (with_rebindings [(?F, instantiation_env_holder i1)]) found)
           \<and> get (Suc fuel2) st visited2 ?d2 s False
               = Some (map (with_rebindings [(?F, instantiation_env_holder i2)]) found)
           \<and> found = dedup (entities_at st ?D s))"
  proof
    assume ne: "?D \<noteq> ?F"
    then have "rebound [(?F, instantiation_env_holder i1)] ?D = ?D"
      "rebound [(?F, instantiation_env_holder i2)] ?D = ?D"
      by (simp_all add: rebound_def)
    from get_non_recursive_rebound[OF this(1)] get_non_recursive_rebound[OF this(2)]
    show "\<exists>found.
             get (Suc fuel1) st visited1 ?d1 s False
               = Some (map (with_rebindings [(?F, instantiation_env_holder i1)]) found)
           \<and> get (Suc fuel2) st visited2 ?d2 s False
               = Some (map (with_rebindings [(?F, instantiation_env_holder i2)]) found)
           \<and> found = dedup (entities_at st ?D s)"
      by blast
  qed
  have c: "((e1::entity) = e2) \<longleftrightarrow>
          el e1 = el e2 \<and> md (info e1) = md (info e2)
          \<and> rebindings (info e1) = rebindings (info e2)"
    by (auto simp: entity.equality entity_info.equality)
  from d1 d2 a b c show ?thesis by blast
qed

text \<open>
  The declaration \<^verbatim>\<open>f\<close> of the generic package, found through each
  instantiation; the formal \<^verbatim>\<open>t\<close> resolves to the actual of the instantiation.
\<close>

theorem instantiations_yield_distinct_entities_witness:
  "defining_env ex_inst1 = Inr \<lparr>le_env = 2, le_rebindings = [(1, 3)]\<rparr>
   \<and> defining_env ex_inst2 = Inr \<lparr>le_env = 2, le_rebindings = [(1, 4)]\<rparr>
   \<and> get 1 (run ex_generic_ops) {} \<lparr>le_env = 2, le_rebindings = [(1, 3)]\<rparr> ''f'' False
       = Some [with_rebindings [(1, 3)] (ex_entity 21)]
   \<and> get 1 (run ex_generic_ops) {} \<lparr>le_env = 2, le_rebindings = [(1, 4)]\<rparr> ''f'' False
       = Some [with_rebindings [(1, 4)] (ex_entity 21)]
   \<and> with_rebindings [(1, 3)] (ex_entity 21) \<noteq> with_rebindings [(1, 4)] (ex_entity 21)
   \<and> el (with_rebindings [(1, 3)] (ex_entity 21)) = el (with_rebindings [(1, 4)] (ex_entity 21))
   \<and> get 3 (run ex_generic_ops) {} \<lparr>le_env = 2, le_rebindings = [(1, 3)]\<rparr> ''t'' True
       = Some [with_rebindings [(1, 3)] (ex_entity 30)]"
proof -
  have p: "designated_generic_decl ex_inst1 = Some ex_generic"
    "designated_generic_decl ex_inst2 = Some ex_generic"
    "instantiation_env_holder ex_inst1 \<noteq> instantiation_env_holder ex_inst2"
    by (simp_all add: ex_inst1_def ex_inst2_def)
  have d: "defining_env ex_inst1 = Inr \<lparr>le_env = 2, le_rebindings = [(1, 3)]\<rparr>"
    "defining_env ex_inst2 = Inr \<lparr>le_env = 2, le_rebindings = [(1, 4)]\<rparr>"
    by (simp_all add: defining_env_def rebind_env_def ex_inst1_def ex_inst2_def ex_generic_def)
  have st: "run ex_generic_ops =
     [\<lparr>env_node = 1, env_parent = None, env_entries = [], env_refs = []\<rparr>,
      \<lparr>env_node = 2, env_parent = Some 0, env_entries = [(''t'', ex_entity 20)], env_refs = []\<rparr>,
      \<lparr>env_node = 3, env_parent = Some 1, env_entries = [(''f'', ex_entity 21)], env_refs = []\<rparr>,
      \<lparr>env_node = 4, env_parent = Some 0, env_entries = [(''t'', ex_entity 30)], env_refs = []\<rparr>,
      \<lparr>env_node = 5, env_parent = Some 0, env_entries = [(''t'', ex_entity 31)], env_refs = []\<rparr>]"
    by (simp add: ex_generic_ops_def run_def create_def add_def)
  have g1: "get 1 (run ex_generic_ops) {} \<lparr>le_env = 2, le_rebindings = [(1, 3)]\<rparr> ''f'' False
       = Some [with_rebindings [(1, 3)] (ex_entity 21)]"
    unfolding st by (simp add: rebound_def direct_entities_def)
  have g2: "get 1 (run ex_generic_ops) {} \<lparr>le_env = 2, le_rebindings = [(1, 4)]\<rparr> ''f'' False
       = Some [with_rebindings [(1, 4)] (ex_entity 21)]"
    unfolding st by (simp add: rebound_def direct_entities_def)
  have g3: "get 3 (run ex_generic_ops) {} \<lparr>le_env = 2, le_rebindings = [(1, 3)]\<rparr> ''t'' True
       = Some [with_rebindings [(1, 3)] (ex_entity 30)]"
    unfolding st by (simp add: rebound_def direct_entities_def numeral_3_eq_3)
  from instantiations_yield_distinct_entities[OF p, of 1 "run ex_generic_ops" "{}" "''f''" False
      "[with_rebindings [(1, 3)] (ex_entity 21)]" 1 "{}" "''f''" False
      "[with_rebindings [(1, 4)] (ex_entity 21)]"] d g1 g2
  have ne: "with_rebindings [(1, 3)] (ex_entity 21) \<noteq> with_rebindings [(1, 4)] (ex_entity 21)"
    by auto
  have el: "el (with_rebindings [(1, 3)] (ex_entity 21))
      = el (with_rebindings [(1, 4)] (ex_entity 21))"
    by (simp add: with_rebindings_def)
  from d g1 g2 g3 ne el show ?thesis by simp
qed

end
